theory Spec2Isabelle
  imports Main "HOL-Library.Multiset" "HOL-Library.Char_ord" "HOL-Library.List_Lexorder"
begin

section \<open>JSON values and the JavaScript operators the handlers use\<close>

text \<open>
  A request body or query string reaches a handler as a parsed JSON object. A property
  that is absent reads as \<open>undefined\<close>. Numbers are kept as integers: every test the
  handlers make on a number (\<open>!x\<close>, \<open>typeof x\<close>) treats a fractional number like a
  non-zero integer.
\<close>

datatype jsval =
    JUndefined
  | JNull
  | JBool bool
  | JNum int
  | JStr string
  | JArr "jsval list"
  | JObj "(string \<times> jsval) list"

text \<open>An object is the list of its properties; the keys of a parsed object are distinct.\<close>

type_synonym jsobject = "(string \<times> jsval) list"

text \<open>\<open>obj.key\<close>: the value stored under the key, \<open>undefined\<close> when there is none.\<close>

definition field :: "jsobject \<Rightarrow> string \<Rightarrow> jsval" where
  "field obj k = (case map_of obj k of None \<Rightarrow> JUndefined | Some v \<Rightarrow> v)"

text \<open>\<open>delete obj.key\<close>.\<close>

definition delete_key :: "string \<Rightarrow> jsobject \<Rightarrow> jsobject" where
  "delete_key k obj = filter (\<lambda>kv. fst kv \<noteq> k) obj"

text \<open>\<open>obj.key = v\<close> on an object from which the key has been deleted.\<close>

definition set_key :: "string \<Rightarrow> jsval \<Rightarrow> jsobject \<Rightarrow> jsobject" where
  "set_key k v obj = delete_key k obj @ [(k, v)]"

text \<open>Truthiness: \<open>!x\<close> is \<open>\<not> truthy x\<close>.\<close>

fun truthy :: "jsval \<Rightarrow> bool" where
  "truthy JUndefined = False"
| "truthy JNull = False"
| "truthy (JBool b) = b"
| "truthy (JNum n) = (n \<noteq> 0)"
| "truthy (JStr s) = (s \<noteq> [])"
| "truthy (JArr _) = True"
| "truthy (JObj _) = True"

text \<open>\<open>x == null\<close> (loose equality): true of \<open>null\<close> and \<open>undefined\<close> only.\<close>

fun nullish :: "jsval \<Rightarrow> bool" where
  "nullish JUndefined = True"
| "nullish JNull = True"
| "nullish _ = False"

text \<open>\<open>a ?? b\<close>.\<close>

definition coalesce :: "jsval \<Rightarrow> jsval \<Rightarrow> jsval" where
  "coalesce a b = (if nullish a then b else a)"

text \<open>\<open>a || b\<close>.\<close>

definition js_or :: "jsval \<Rightarrow> jsval \<Rightarrow> jsval" where
  "js_or a b = (if truthy a then a else b)"

subsection \<open>Strings\<close>

text \<open>
  A \<open>string\<close> is a list of 8-bit characters, read as the code units U+0000 to U+00FF.
  \<open>trim\<close> removes ECMAScript white space and line terminators in that range from
  both ends; \<open>toLowerCase\<close> maps A-Z and the upper-case letters of Latin-1.
\<close>

definition isWhiteSpace :: "char \<Rightarrow> bool" where
  "isWhiteSpace c =
     (c \<in> set [CHR 0x09, CHR 0x0A, CHR 0x0B, CHR 0x0C, CHR 0x0D, CHR 0x20, CHR 0xA0])"

definition trim :: "string \<Rightarrow> string" where
  "trim s = rev (dropWhile isWhiteSpace (rev (dropWhile isWhiteSpace s)))"

definition lowerChar :: "char \<Rightarrow> char" where
  "lowerChar c =
     (let n = (of_char c :: nat)
      in if (65 \<le> n \<and> n \<le> 90) \<or> (192 \<le> n \<and> n \<le> 222 \<and> n \<noteq> 215)
         then char_of (n + 32) else c)"

definition toLowerCase :: "string \<Rightarrow> string" where
  "toLowerCase s = map lowerChar s"

text \<open>\<open>xs.join(sep)\<close>.\<close>

fun join :: "string \<Rightarrow> string list \<Rightarrow> string" where
  "join sep [] = []"
| "join sep [x] = x"
| "join sep (x # y # ys) = x @ sep @ join sep (y # ys)"

section \<open>Replies\<close>

text \<open>
  A handler answers with a status code and a JSON body: \<open>Err\<close> carries the
  \<open>message\<close> of an error reply, \<open>Ok\<close> the content of a successful one.
  \<open>res.json\<close> without \<open>res.status\<close> answers 200.
\<close>

datatype 'a reply = Err nat string | Ok nat 'a

fun status :: "'a reply \<Rightarrow> nat" where
  "status (Err c _) = c"
| "status (Ok c _) = c"

text \<open>The error taxonomy of the specification, by status code.\<close>

datatype error_class = BadRequest | Unauthorized | Forbidden | NotFound | Conflict | Internal

fun error_class_of :: "nat \<Rightarrow> error_class option" where
  "error_class_of c =
     (if c = 400 then Some BadRequest
      else if c = 401 then Some Unauthorized
      else if c = 403 then Some Forbidden
      else if c = 404 then Some NotFound
      else if c = 409 then Some Conflict
      else if c = 500 then Some Internal
      else None)"

text \<open>Every handler's \<open>catch\<close> block.\<close>

definition server_error :: "'a reply" where
  "server_error = Err 500 ''Server error''"

section \<open>The relational store\<close>

type_synonym ident = string

datatype role = JOB_SEEKER | RECRUITER | ADMIN

datatype app_status = PENDING | REVIEWED | ACCEPTED | REJECTED

record user =
  user_id :: ident
  user_name :: string
  user_email :: string
  user_role :: role

record profile =
  profile_id :: ident
  profile_userId :: ident
  profile_name :: "string option"
  profile_headline :: "string option"
  profile_location :: "string option"
  profile_phone :: "string option"
  profile_about :: "string option"
  profile_skills :: "string list"
  profile_resume :: "string option"
  profile_resumeName :: "string option"
  profile_avatar :: "string option"

record experience =
  exp_id :: ident
  exp_profileId :: ident
  exp_title :: string
  exp_company :: string
  exp_location :: "string option"
  exp_startDate :: string
  exp_endDate :: "string option"
  exp_current :: bool
  exp_description :: "string option"

record education =
  edu_id :: ident
  edu_profileId :: ident
  edu_institution :: string
  edu_degree :: string
  edu_fieldOfStudy :: string
  edu_startYear :: int
  edu_endYear :: "int option"
  edu_grade :: "string option"

record job =
  job_id :: ident
  job_title :: string
  job_company :: string
  job_location :: string
  job_category :: string
  job_type :: string
  job_salary :: string
  job_description :: string
  job_requirements :: "string option"
  job_recruiterId :: ident
  job_createdAt :: nat

record application =
  app_id :: ident
  app_coverLetter :: "string option"
  app_status :: app_status
  app_userId :: ident
  app_jobId :: ident
  app_createdAt :: nat

record savedJob =
  saved_id :: ident
  saved_userId :: ident
  saved_jobId :: ident
  saved_createdAt :: nat

record store =
  users :: "user list"
  profiles :: "profile list"
  experiences :: "experience list"
  educations :: "education list"
  jobs :: "job list"
  applications :: "application list"
  savedJobs :: "savedJob list"

text \<open>
  Modelled from the spec: the database schema is not among the sources. The model takes
  from the specification and from the queries the handlers make: a primary key \<open>id\<close>
  per table; the unique keys the handlers look rows up by (\<open>userId\<close> of a profile,
  \<open>userId_jobId\<close> of an application and of a saved job); the foreign keys behind the
  relations the handlers include; text columns that accept strings only, optional ones
  also \<open>null\<close>. A store operation that the database refuses makes the ORM throw:
  the operation returns \<open>None\<close> and the handler's \<open>catch\<close> answers 500. The id of a
  new row and its creation time are produced by the database; a handler that creates a
  row takes them as arguments. Timestamps are natural numbers; a date column holds the
  ISO-8601 text it was given, ordered as text.
\<close>

text \<open>What the ORM accepts for a required and for an optional text column.\<close>

fun req_string :: "jsval \<Rightarrow> string option" where
  "req_string (JStr s) = Some s"
| "req_string _ = None"

fun opt_string :: "jsval \<Rightarrow> string option option" where
  "opt_string (JStr s) = Some (Some s)"
| "opt_string JNull = Some None"
| "opt_string JUndefined = Some None"
| "opt_string _ = None"

fun req_bool :: "jsval \<Rightarrow> bool option" where
  "req_bool (JBool b) = Some b"
| "req_bool _ = None"

fun req_int :: "jsval \<Rightarrow> int option" where
  "req_int (JNum n) = Some n"
| "req_int _ = None"

fun opt_int :: "jsval \<Rightarrow> int option option" where
  "opt_int (JNum n) = Some (Some n)"
| "opt_int JNull = Some None"
| "opt_int JUndefined = Some None"
| "opt_int _ = None"

text \<open>\<open>orderBy: { createdAt: 'desc' }\<close> and its like: descending by a key. The
  database does not say in which order rows with equal keys come; the model fixes one, and
  no statement below depends on it.\<close>

definition orderByDesc :: "('a \<Rightarrow> 'k::linorder) \<Rightarrow> 'a list \<Rightarrow> 'a list" where
  "orderByDesc f xs = rev (sort_key f xs)"

subsection \<open>Users\<close>

definition user_findUnique :: "ident \<Rightarrow> store \<Rightarrow> user option" where
  "user_findUnique i s = find (\<lambda>u. user_id u = i) (users s)"

definition user_exists :: "ident \<Rightarrow> store \<Rightarrow> bool" where
  "user_exists i s = (user_findUnique i s \<noteq> None)"

text \<open>\<open>select: { id: true, name: true, email: true }\<close>.\<close>

definition user_summary :: "user \<Rightarrow> ident \<times> string \<times> string" where
  "user_summary u = (user_id u, user_name u, user_email u)"

text \<open>\<open>select: { email: true, name: true }\<close>.\<close>

definition user_contact :: "user \<Rightarrow> string \<times> string" where
  "user_contact u = (user_email u, user_name u)"

subsection \<open>Jobs\<close>

definition job_findUnique :: "ident \<Rightarrow> store \<Rightarrow> job option" where
  "job_findUnique i s = find (\<lambda>j. job_id j = i) (jobs s)"

text \<open>\<open>prisma.job.findMany\<close> of the public listing: an optional category filter, the
  recruiter's summary attached, newest first.\<close>

definition job_findMany_listing ::
  "string option \<Rightarrow> store \<Rightarrow> (job \<times> (ident \<times> string \<times> string) option) list" where
  "job_findMany_listing category s =
     map (\<lambda>j. (j, map_option user_summary (user_findUnique (job_recruiterId j) s)))
       (orderByDesc job_createdAt
          (case category of
             None \<Rightarrow> jobs s
           | Some c \<Rightarrow> filter (\<lambda>j. job_category j = c) (jobs s)))"

definition job_findMany_recruiter :: "ident \<Rightarrow> store \<Rightarrow> job list" where
  "job_findMany_recruiter uid s = filter (\<lambda>j. job_recruiterId j = uid) (jobs s)"

definition job_create ::
  "ident \<Rightarrow> nat \<Rightarrow> jsval \<Rightarrow> jsval \<Rightarrow> jsval \<Rightarrow> string \<Rightarrow> jsval \<Rightarrow> jsval \<Rightarrow> jsval \<Rightarrow> jsval \<Rightarrow>
   ident \<Rightarrow> store \<Rightarrow> (job \<times> store) option" where
  "job_create newId now title company location category jtype salary description
     requirements recruiterId s =
     (case req_string title of None \<Rightarrow> None | Some t \<Rightarrow>
      case req_string company of None \<Rightarrow> None | Some c \<Rightarrow>
      case req_string location of None \<Rightarrow> None | Some l \<Rightarrow>
      case req_string jtype of None \<Rightarrow> None | Some ty \<Rightarrow>
      case req_string salary of None \<Rightarrow> None | Some sa \<Rightarrow>
      case req_string description of None \<Rightarrow> None | Some d \<Rightarrow>
      case opt_string requirements of None \<Rightarrow> None | Some r \<Rightarrow>
        if job_findUnique newId s \<noteq> None \<or> \<not> user_exists recruiterId s then None
        else
          let j = \<lparr> job_id = newId, job_title = t, job_company = c, job_location = l,
                    job_category = category, job_type = ty, job_salary = sa,
                    job_description = d, job_requirements = r,
                    job_recruiterId = recruiterId, job_createdAt = now \<rparr>
          in Some (j, s\<lparr> jobs := jobs s @ [j] \<rparr>))"

text \<open>
  \<open>prisma.job.update\<close> is given the request body as its \<open>data\<close>. Which keys and
  values the ORM accepts there (the columns and relations of the Job model, their types,
  the update operations) is fixed by the schema, which is not among the sources. The
  update is therefore a parameter of the route: from the id, the data and the store it
  gives the updated row and the new store, or \<open>None\<close> when the ORM throws.
\<close>

type_synonym job_updater = "ident \<Rightarrow> jsobject \<Rightarrow> store \<Rightarrow> (job \<times> store) option"

subsection \<open>Applications\<close>

definition application_findUnique :: "ident \<Rightarrow> store \<Rightarrow> application option" where
  "application_findUnique i s = find (\<lambda>a. app_id a = i) (applications s)"

definition application_findUnique_userId_jobId ::
  "ident \<Rightarrow> ident \<Rightarrow> store \<Rightarrow> application option" where
  "application_findUnique_userId_jobId uid jid s =
     find (\<lambda>a. app_userId a = uid \<and> app_jobId a = jid) (applications s)"

definition application_create ::
  "ident \<Rightarrow> nat \<Rightarrow> jsval \<Rightarrow> ident \<Rightarrow> ident \<Rightarrow> store \<Rightarrow> (application \<times> store) option" where
  "application_create newId now coverLetter uid jid s =
     (case opt_string coverLetter of
        None \<Rightarrow> None
      | Some cl \<Rightarrow>
          if application_findUnique newId s \<noteq> None
             \<or> application_findUnique_userId_jobId uid jid s \<noteq> None
             \<or> \<not> user_exists uid s \<or> job_findUnique jid s = None
          then None
          else
            let a = \<lparr> app_id = newId, app_coverLetter = cl, app_status = PENDING,
                      app_userId = uid, app_jobId = jid, app_createdAt = now \<rparr>
            in Some (a, s\<lparr> applications := applications s @ [a] \<rparr>))"

definition application_delete :: "ident \<Rightarrow> store \<Rightarrow> store option" where
  "application_delete i s =
     (if application_findUnique i s = None then None
      else Some (s\<lparr> applications := filter (\<lambda>a. app_id a \<noteq> i) (applications s) \<rparr>))"

definition application_deleteMany_userId :: "ident \<Rightarrow> store \<Rightarrow> store" where
  "application_deleteMany_userId uid s =
     s\<lparr> applications := filter (\<lambda>a. app_userId a \<noteq> uid) (applications s) \<rparr>"

definition application_deleteMany_jobId :: "ident \<Rightarrow> store \<Rightarrow> store" where
  "application_deleteMany_jobId jid s =
     s\<lparr> applications := filter (\<lambda>a. app_jobId a \<noteq> jid) (applications s) \<rparr>"

subsection \<open>Saved jobs\<close>

definition savedJob_findUnique_userId_jobId ::
  "ident \<Rightarrow> ident \<Rightarrow> store \<Rightarrow> savedJob option" where
  "savedJob_findUnique_userId_jobId uid jid s =
     find (\<lambda>x. saved_userId x = uid \<and> saved_jobId x = jid) (savedJobs s)"

definition savedJob_create ::
  "ident \<Rightarrow> nat \<Rightarrow> ident \<Rightarrow> ident \<Rightarrow> store \<Rightarrow> (savedJob \<times> store) option" where
  "savedJob_create newId now uid jid s =
     (if find (\<lambda>x. saved_id x = newId) (savedJobs s) \<noteq> None
         \<or> savedJob_findUnique_userId_jobId uid jid s \<noteq> None
         \<or> \<not> user_exists uid s \<or> job_findUnique jid s = None
      then None
      else
        let x = \<lparr> saved_id = newId, saved_userId = uid, saved_jobId = jid,
                  saved_createdAt = now \<rparr>
        in Some (x, s\<lparr> savedJobs := savedJobs s @ [x] \<rparr>))"

text \<open>\<open>prisma.savedJob.delete\<close> by the unique key \<open>userId_jobId\<close>.\<close>

definition savedJob_delete_userId_jobId :: "ident \<Rightarrow> ident \<Rightarrow> store \<Rightarrow> store option" where
  "savedJob_delete_userId_jobId uid jid s =
     (if savedJob_findUnique_userId_jobId uid jid s = None then None
      else Some (s\<lparr> savedJobs :=
             filter (\<lambda>x. \<not> (saved_userId x = uid \<and> saved_jobId x = jid)) (savedJobs s) \<rparr>))"

definition savedJob_deleteMany_userId :: "ident \<Rightarrow> store \<Rightarrow> store" where
  "savedJob_deleteMany_userId uid s =
     s\<lparr> savedJobs := filter (\<lambda>x. saved_userId x \<noteq> uid) (savedJobs s) \<rparr>"

definition savedJob_deleteMany_jobId :: "ident \<Rightarrow> store \<Rightarrow> store" where
  "savedJob_deleteMany_jobId jid s =
     s\<lparr> savedJobs := filter (\<lambda>x. saved_jobId x \<noteq> jid) (savedJobs s) \<rparr>"

subsection \<open>Deleting rows that other rows refer to\<close>

text \<open>
  The handlers delete the applications and saved jobs of a job before the job, and those
  rows and the jobs of a user before the user (\<open>Delete related data first\<close>): the
  database refuses to delete a job or a user that such a row still refers to.
\<close>

definition job_referenced :: "ident \<Rightarrow> store \<Rightarrow> bool" where
  "job_referenced jid s =
     (list_ex (\<lambda>a. app_jobId a = jid) (applications s)
      \<or> list_ex (\<lambda>x. saved_jobId x = jid) (savedJobs s))"

definition job_delete :: "ident \<Rightarrow> store \<Rightarrow> store option" where
  "job_delete i s =
     (if job_findUnique i s = None \<or> job_referenced i s then None
      else Some (s\<lparr> jobs := filter (\<lambda>j. job_id j \<noteq> i) (jobs s) \<rparr>))"

definition job_deleteMany_recruiter :: "ident \<Rightarrow> store \<Rightarrow> store option" where
  "job_deleteMany_recruiter uid s =
     (if list_ex (\<lambda>j. job_referenced (job_id j) s) (job_findMany_recruiter uid s) then None
      else Some (s\<lparr> jobs := filter (\<lambda>j. job_recruiterId j \<noteq> uid) (jobs s) \<rparr>))"

subsection \<open>Profiles, experiences and education\<close>

definition profile_findUnique :: "ident \<Rightarrow> store \<Rightarrow> profile option" where
  "profile_findUnique i s = find (\<lambda>p. profile_id p = i) (profiles s)"

definition profile_findUnique_userId :: "ident \<Rightarrow> store \<Rightarrow> profile option" where
  "profile_findUnique_userId uid s = find (\<lambda>p. profile_userId p = uid) (profiles s)"

text \<open>\<open>prisma.profile.create\<close> with \<open>data: { userId, name }\<close>; the other columns take
  their defaults.\<close>

definition profile_create ::
  "ident \<Rightarrow> ident \<Rightarrow> string option \<Rightarrow> store \<Rightarrow> (profile \<times> store) option" where
  "profile_create newId uid name s =
     (if profile_findUnique newId s \<noteq> None \<or> profile_findUnique_userId uid s \<noteq> None
         \<or> \<not> user_exists uid s
      then None
      else
        let p = \<lparr> profile_id = newId, profile_userId = uid, profile_name = name,
                  profile_headline = None, profile_location = None, profile_phone = None,
                  profile_about = None, profile_skills = [], profile_resume = None,
                  profile_resumeName = None, profile_avatar = None \<rparr>
        in Some (p, s\<lparr> profiles := profiles s @ [p] \<rparr>))"

type_synonym profile_view =
  "profile \<times> experience list \<times> education list \<times> (string \<times> string) option"

text \<open>\<open>include: { experiences: { orderBy: { startDate: 'desc' } },
  education: { orderBy: { startYear: 'desc' } }, user: { select: ... } }\<close>.\<close>

definition profile_include_ordered :: "profile \<Rightarrow> store \<Rightarrow> profile_view" where
  "profile_include_ordered p s =
     (p,
      orderByDesc exp_startDate (filter (\<lambda>e. exp_profileId e = profile_id p) (experiences s)),
      orderByDesc edu_startYear (filter (\<lambda>e. edu_profileId e = profile_id p) (educations s)),
      map_option user_contact (user_findUnique (profile_userId p) s))"

text \<open>\<open>include: { experiences: true, education: true, user: { select: ... } }\<close>.\<close>

definition profile_include :: "profile \<Rightarrow> store \<Rightarrow> profile_view" where
  "profile_include p s =
     (p,
      filter (\<lambda>e. exp_profileId e = profile_id p) (experiences s),
      filter (\<lambda>e. edu_profileId e = profile_id p) (educations s),
      map_option user_contact (user_findUnique (profile_userId p) s))"

definition experience_findUnique :: "ident \<Rightarrow> store \<Rightarrow> experience option" where
  "experience_findUnique i s = find (\<lambda>e. exp_id e = i) (experiences s)"

definition experience_create ::
  "ident \<Rightarrow> ident \<Rightarrow> jsval \<Rightarrow> jsval \<Rightarrow> jsval \<Rightarrow> jsval \<Rightarrow> jsval \<Rightarrow> jsval \<Rightarrow> jsval \<Rightarrow> store \<Rightarrow>
   (experience \<times> store) option" where
  "experience_create newId pid title company location startDate endDate current description s =
     (case req_string title of None \<Rightarrow> None | Some t \<Rightarrow>
      case req_string company of None \<Rightarrow> None | Some c \<Rightarrow>
      case opt_string location of None \<Rightarrow> None | Some l \<Rightarrow>
      case req_string startDate of None \<Rightarrow> None | Some sd \<Rightarrow>
      case opt_string endDate of None \<Rightarrow> None | Some ed \<Rightarrow>
      case req_bool current of None \<Rightarrow> None | Some cu \<Rightarrow>
      case opt_string description of None \<Rightarrow> None | Some d \<Rightarrow>
        if experience_findUnique newId s \<noteq> None \<or> profile_findUnique pid s = None then None
        else
          let e = \<lparr> exp_id = newId, exp_profileId = pid, exp_title = t, exp_company = c,
                    exp_location = l, exp_startDate = sd, exp_endDate = ed,
                    exp_current = cu, exp_description = d \<rparr>
          in Some (e, s\<lparr> experiences := experiences s @ [e] \<rparr>))"

text \<open>A column of an update: \<open>undefined\<close> keeps the stored value.\<close>

definition upd_req_string :: "jsval \<Rightarrow> string \<Rightarrow> string option" where
  "upd_req_string v old = (if v = JUndefined then Some old else req_string v)"

definition upd_opt_string :: "jsval \<Rightarrow> string option \<Rightarrow> string option option" where
  "upd_opt_string v old =
     (case v of JUndefined \<Rightarrow> Some old | JNull \<Rightarrow> Some None | JStr x \<Rightarrow> Some (Some x)
      | _ \<Rightarrow> None)"

definition upd_req_bool :: "jsval \<Rightarrow> bool \<Rightarrow> bool option" where
  "upd_req_bool v old = (if v = JUndefined then Some old else req_bool v)"

definition upd_req_int :: "jsval \<Rightarrow> int \<Rightarrow> int option" where
  "upd_req_int v old = (if v = JUndefined then Some old else req_int v)"

definition upd_opt_int :: "jsval \<Rightarrow> int option \<Rightarrow> int option option" where
  "upd_opt_int v old =
     (case v of JUndefined \<Rightarrow> Some old | JNull \<Rightarrow> Some None | JNum x \<Rightarrow> Some (Some x)
      | _ \<Rightarrow> None)"

definition experience_update ::
  "ident \<Rightarrow> jsval \<Rightarrow> jsval \<Rightarrow> jsval \<Rightarrow> jsval \<Rightarrow> jsval \<Rightarrow> jsval \<Rightarrow> jsval \<Rightarrow> store \<Rightarrow>
   (experience \<times> store) option" where
  "experience_update i title company location startDate endDate current description s =
     (case experience_findUnique i s of None \<Rightarrow> None | Some old \<Rightarrow>
      case upd_req_string title (exp_title old) of None \<Rightarrow> None | Some t \<Rightarrow>
      case upd_req_string company (exp_company old) of None \<Rightarrow> None | Some c \<Rightarrow>
      case upd_opt_string location (exp_location old) of None \<Rightarrow> None | Some l \<Rightarrow>
      case upd_req_string startDate (exp_startDate old) of None \<Rightarrow> None | Some sd \<Rightarrow>
      case upd_opt_string endDate (exp_endDate old) of None \<Rightarrow> None | Some ed \<Rightarrow>
      case upd_req_bool current (exp_current old) of None \<Rightarrow> None | Some cu \<Rightarrow>
      case upd_opt_string description (exp_description old) of None \<Rightarrow> None | Some d \<Rightarrow>
        let e = \<lparr> exp_id = i, exp_profileId = exp_profileId old, exp_title = t,
                  exp_company = c, exp_location = l, exp_startDate = sd, exp_endDate = ed,
                  exp_current = cu, exp_description = d \<rparr>
        in Some (e, s\<lparr> experiences :=
                  map (\<lambda>x. if exp_id x = i then e else x) (experiences s) \<rparr>))"

definition experience_delete :: "ident \<Rightarrow> store \<Rightarrow> store option" where
  "experience_delete i s =
     (if experience_findUnique i s = None then None
      else Some (s\<lparr> experiences := filter (\<lambda>e. exp_id e \<noteq> i) (experiences s) \<rparr>))"

definition education_findUnique :: "ident \<Rightarrow> store \<Rightarrow> education option" where
  "education_findUnique i s = find (\<lambda>e. edu_id e = i) (educations s)"

definition education_update ::
  "ident \<Rightarrow> jsval \<Rightarrow> jsval \<Rightarrow> jsval \<Rightarrow> jsval \<Rightarrow> jsval \<Rightarrow> jsval \<Rightarrow> store \<Rightarrow>
   (education \<times> store) option" where
  "education_update i institution degree fieldOfStudy startYear endYear grade s =
     (case education_findUnique i s of None \<Rightarrow> None | Some old \<Rightarrow>
      case upd_req_string institution (edu_institution old) of None \<Rightarrow> None | Some ins \<Rightarrow>
      case upd_req_string degree (edu_degree old) of None \<Rightarrow> None | Some dg \<Rightarrow>
      case upd_req_string fieldOfStudy (edu_fieldOfStudy old) of None \<Rightarrow> None | Some fs \<Rightarrow>
      case upd_req_int startYear (edu_startYear old) of None \<Rightarrow> None | Some sy \<Rightarrow>
      case upd_opt_int endYear (edu_endYear old) of None \<Rightarrow> None | Some ey \<Rightarrow>
      case upd_opt_string grade (edu_grade old) of None \<Rightarrow> None | Some g \<Rightarrow>
        let e = \<lparr> edu_id = i, edu_profileId = edu_profileId old, edu_institution = ins,
                  edu_degree = dg, edu_fieldOfStudy = fs, edu_startYear = sy,
                  edu_endYear = ey, edu_grade = g \<rparr>
        in Some (e, s\<lparr> educations :=
                  map (\<lambda>x. if edu_id x = i then e else x) (educations s) \<rparr>))"

definition education_delete :: "ident \<Rightarrow> store \<Rightarrow> store option" where
  "education_delete i s =
     (if education_findUnique i s = None then None
      else Some (s\<lparr> educations := filter (\<lambda>e. edu_id e \<noteq> i) (educations s) \<rparr>))"

subsection \<open>Deleting a user\<close>

text \<open>
  Modelled from the spec: what the database does with a user's profile when the user is
  deleted is part of the schema, which is not among the sources. The specification says
  that deleting a user cascades to the profile and that deletions must respect the
  foreign keys; the handler itself never deletes a profile. The referential action of
  the relation from a profile to its user, and of the relations from an experience and
  from an education to their profile, are therefore parameters: \<open>Cascade\<close> deletes
  the referring rows with the row they refer to, \<open>Restrict\<close> refuses the deletion while
  such a row exists.
\<close>

datatype ref_action = Cascade | Restrict

record schema =
  profile_user_onDelete :: ref_action
  experience_profile_onDelete :: ref_action
  education_profile_onDelete :: ref_action

text \<open>Rows that the handlers delete by hand before the user.\<close>

definition user_referenced :: "ident \<Rightarrow> store \<Rightarrow> bool" where
  "user_referenced uid s =
     (list_ex (\<lambda>j. job_recruiterId j = uid) (jobs s)
      \<or> list_ex (\<lambda>a. app_userId a = uid) (applications s)
      \<or> list_ex (\<lambda>x. saved_userId x = uid) (savedJobs s))"

text \<open>
  Modelled from the spec: the database's part in deleting a user, for the profile and the
  rows that hang on it, by the referential actions of the schema.
\<close>

definition profile_delete_for_user :: "schema \<Rightarrow> ident \<Rightarrow> store \<Rightarrow> store option" where
  "profile_delete_for_user sch uid s =
     (let pids = map profile_id (filter (\<lambda>p. profile_userId p = uid) (profiles s)) in
      if pids = [] then Some s
      else if profile_user_onDelete sch = Restrict then None
      else if experience_profile_onDelete sch = Restrict
              \<and> list_ex (\<lambda>e. exp_profileId e \<in> set pids) (experiences s) then None
      else if education_profile_onDelete sch = Restrict
              \<and> list_ex (\<lambda>e. edu_profileId e \<in> set pids) (educations s) then None
      else Some (s\<lparr> experiences := filter (\<lambda>e. exp_profileId e \<notin> set pids) (experiences s),
                    educations := filter (\<lambda>e. edu_profileId e \<notin> set pids) (educations s),
                    profiles := filter (\<lambda>p. profile_userId p \<noteq> uid) (profiles s) \<rparr>))"

text \<open>\<open>prisma.user.delete\<close>: refused when the user is absent or still referred to.\<close>

definition user_delete :: "schema \<Rightarrow> ident \<Rightarrow> store \<Rightarrow> store option" where
  "user_delete sch i s =
     (if user_findUnique i s = None \<or> user_referenced i s then None
      else
        (case profile_delete_for_user sch i s of
           None \<Rightarrow> None
         | Some s' \<Rightarrow> Some (s'\<lparr> users := filter (\<lambda>u. user_id u \<noteq> i) (users s') \<rparr>)))"

section \<open>Authentication and the role gate\<close>

text \<open>
  \<open>req.user\<close>, as \<open>authMiddleware\<close> attaches it to an authenticated request. The
  handlers below are modelled from that point on.
\<close>

record auth =
  auth_userId :: ident
  auth_role :: role

text \<open>
  Modelled from the spec: the reply of the role gate. The middleware module is not among
  the sources; the specification gives the status, Forbidden, and the message here is a
  placeholder on which no statement below depends.
\<close>

definition role_denied :: "'a reply" where
  "role_denied = Err 403 ''Forbidden''"

text \<open>
  Modelled from the spec: \<open>requireRole\<close> is defined in the middleware module, which
  is not among the sources. By the specification a request whose user has none of the
  listed roles fails with Forbidden (authenticated but wrong role) and the handler does
  not run.
\<close>

definition requireRole ::
  "role list \<Rightarrow> auth \<Rightarrow> store \<Rightarrow> ('a reply \<times> store) \<Rightarrow> ('a reply \<times> store)" where
  "requireRole roles u s handler = (if auth_role u \<in> set roles then handler else (role_denied, s))"

section \<open>The job routes\<close>

definition JOB_CATEGORIES :: "string list" where
  "JOB_CATEGORIES = [''frontend'', ''backend'', ''fullstack'']"

fun normalizeCategory :: "jsval \<Rightarrow> string option" where
  "normalizeCategory (JStr input) =
     (let v = toLowerCase (trim input) in
      if v = [] then None
      else if v \<notin> set JOB_CATEGORIES then None
      else Some v)"
| "normalizeCategory _ = None"

declare normalizeCategory.simps(1) [simp del]

definition invalid_role_message :: string where
  "invalid_role_message = ''Invalid role. Use one of: '' @ join '', '' JOB_CATEGORIES"

text \<open>\<open>GET /jobs\<close> (public).\<close>

definition GET_jobs ::
  "jsobject \<Rightarrow> store \<Rightarrow> (job \<times> (ident \<times> string \<times> string) option) list reply \<times> store" where
  "GET_jobs query s =
     (let roleQuery = coalesce (field query ''role'') (field query ''category'');
          category = normalizeCategory roleQuery
      in if \<not> nullish roleQuery \<and> category = None then (Err 400 invalid_role_message, s)
         else (Ok 200 (job_findMany_listing category s), s))"

text \<open>\<open>POST /jobs\<close>: the handler, and the route behind its role gate.\<close>

definition POST_jobs_handler ::
  "auth \<Rightarrow> jsobject \<Rightarrow> ident \<Rightarrow> nat \<Rightarrow> store \<Rightarrow> (string \<times> job) reply \<times> store" where
  "POST_jobs_handler u body newId now s =
     (let title = field body ''title''; company = field body ''company'';
          location = field body ''location''; jtype = field body ''type'';
          salary = field body ''salary''; description = field body ''description'';
          requirements = field body ''requirements'';
          category =
            (case normalizeCategory (coalesce (field body ''role'') (field body ''category'')) of
               None \<Rightarrow> ''fullstack''
             | Some c \<Rightarrow> c)
      in if \<not> truthy title \<or> \<not> truthy company \<or> \<not> truthy location \<or> \<not> truthy salary
            \<or> \<not> truthy description
         then (Err 400 ''Required fields missing'', s)
         else
           (case job_create newId now title company location category
                   (js_or jtype (JStr ''FULL_TIME'')) salary description requirements
                   (auth_userId u) s of
              None \<Rightarrow> (server_error, s)
            | Some (j, s') \<Rightarrow> (Ok 201 (''Job created'', j), s')))"

definition POST_jobs ::
  "auth \<Rightarrow> jsobject \<Rightarrow> ident \<Rightarrow> nat \<Rightarrow> store \<Rightarrow> (string \<times> job) reply \<times> store" where
  "POST_jobs u body newId now s =
     requireRole [RECRUITER] u s (POST_jobs_handler u body newId now s)"

text \<open>\<open>PUT /jobs/:id\<close>. The handler's \<open>updateData\<close>: a copy of the body in which
  \<open>role\<close> and \<open>category\<close> are deleted and \<open>category\<close> is set to the normalized
  value when there is one.\<close>

definition updateData :: "jsobject \<Rightarrow> jsobject" where
  "updateData body =
     (let maybeCategory =
            normalizeCategory (coalesce (field body ''role'') (field body ''category''));
          d = delete_key ''category'' (delete_key ''role'' body)
      in case maybeCategory of
           None \<Rightarrow> d
         | Some c \<Rightarrow> set_key ''category'' (JStr c) d)"

definition PUT_jobs_handler ::
  "job_updater \<Rightarrow> auth \<Rightarrow> ident \<Rightarrow> jsobject \<Rightarrow> store \<Rightarrow> (string \<times> job) reply \<times> store" where
  "PUT_jobs_handler job_update u i body s =
     (case job_findUnique i s of
        None \<Rightarrow> (Err 404 ''Job not found'', s)
      | Some j \<Rightarrow>
          if job_recruiterId j \<noteq> auth_userId u then (Err 403 ''Not authorized'', s)
          else
            let maybeCategory =
                  normalizeCategory (coalesce (field body ''role'') (field body ''category''))
            in if (\<not> nullish (field body ''role'') \<or> \<not> nullish (field body ''category''))
                  \<and> maybeCategory = None
               then (Err 400 invalid_role_message, s)
               else
                 (case job_update i (updateData body) s of
                    None \<Rightarrow> (server_error, s)
                  | Some (updated, s') \<Rightarrow> (Ok 200 (''Job updated'', updated), s')))"

definition PUT_jobs ::
  "job_updater \<Rightarrow> auth \<Rightarrow> ident \<Rightarrow> jsobject \<Rightarrow> store \<Rightarrow> (string \<times> job) reply \<times> store" where
  "PUT_jobs job_update u i body s =
     requireRole [RECRUITER] u s (PUT_jobs_handler job_update u i body s)"

text \<open>\<open>DELETE /jobs/:id\<close>.\<close>

definition DELETE_jobs_handler :: "auth \<Rightarrow> ident \<Rightarrow> store \<Rightarrow> string reply \<times> store" where
  "DELETE_jobs_handler u i s =
     (case job_findUnique i s of
        None \<Rightarrow> (Err 404 ''Job not found'', s)
      | Some j \<Rightarrow>
          if auth_role u = RECRUITER \<and> job_recruiterId j \<noteq> auth_userId u
          then (Err 403 ''Not authorized'', s)
          else
            let s1 = application_deleteMany_jobId i s;
                s2 = savedJob_deleteMany_jobId i s1
            in (case job_delete i s2 of
                  None \<Rightarrow> (server_error, s2)
                | Some s3 \<Rightarrow> (Ok 200 ''Job deleted'', s3)))"

definition DELETE_jobs :: "auth \<Rightarrow> ident \<Rightarrow> store \<Rightarrow> string reply \<times> store" where
  "DELETE_jobs u i s = requireRole [RECRUITER, ADMIN] u s (DELETE_jobs_handler u i s)"

section \<open>The application routes\<close>

text \<open>\<open>POST /applications/job/:jobId\<close>.\<close>

definition POST_applications_job_handler ::
  "auth \<Rightarrow> ident \<Rightarrow> jsobject \<Rightarrow> ident \<Rightarrow> nat \<Rightarrow> store \<Rightarrow> (string \<times> application) reply \<times> store"
  where
  "POST_applications_job_handler u jobId body newId now s =
     (let coverLetter = field body ''coverLetter'' in
      case job_findUnique jobId s of
        None \<Rightarrow> (Err 404 ''Job not found'', s)
      | Some j \<Rightarrow>
          (case application_findUnique_userId_jobId (auth_userId u) jobId s of
             Some existing \<Rightarrow> (Err 400 ''Already applied to this job'', s)
           | None \<Rightarrow>
               (case application_create newId now coverLetter (auth_userId u) jobId s of
                  None \<Rightarrow> (server_error, s)
                | Some (a, s') \<Rightarrow> (Ok 201 (''Application submitted'', a), s'))))"

definition POST_applications_job ::
  "auth \<Rightarrow> ident \<Rightarrow> jsobject \<Rightarrow> ident \<Rightarrow> nat \<Rightarrow> store \<Rightarrow> (string \<times> application) reply \<times> store"
  where
  "POST_applications_job u jobId body newId now s =
     requireRole [JOB_SEEKER] u s (POST_applications_job_handler u jobId body newId now s)"

text \<open>\<open>GET /applications/:id\<close>: any authenticated user. The application is read with
  its job and a summary of its user included; \<open>application.job.recruiterId\<close> throws when
  the job is \<open>null\<close>.\<close>

type_synonym application_view =
  "application \<times> job option \<times> (ident \<times> string \<times> string) option"

definition application_include :: "application \<Rightarrow> store \<Rightarrow> application_view" where
  "application_include a s =
     (a, job_findUnique (app_jobId a) s,
      map_option user_summary (user_findUnique (app_userId a) s))"

definition GET_applications_id :: "auth \<Rightarrow> ident \<Rightarrow> store \<Rightarrow> application_view reply \<times> store"
  where
  "GET_applications_id u i s =
     (case application_findUnique i s of
        None \<Rightarrow> (Err 404 ''Application not found'', s)
      | Some a \<Rightarrow>
          if auth_role u = JOB_SEEKER \<and> app_userId a \<noteq> auth_userId u
          then (Err 403 ''Not authorized'', s)
          else if auth_role u = RECRUITER
          then (case job_findUnique (app_jobId a) s of
                  None \<Rightarrow> (server_error, s)
                | Some j \<Rightarrow>
                    if job_recruiterId j \<noteq> auth_userId u then (Err 403 ''Not authorized'', s)
                    else (Ok 200 (application_include a s), s))
          else (Ok 200 (application_include a s), s))"

text \<open>\<open>DELETE /applications/:id\<close> (withdraw).\<close>

definition DELETE_applications_handler :: "auth \<Rightarrow> ident \<Rightarrow> store \<Rightarrow> string reply \<times> store" where
  "DELETE_applications_handler u i s =
     (case application_findUnique i s of
        None \<Rightarrow> (Err 404 ''Application not found'', s)
      | Some a \<Rightarrow>
          if app_userId a \<noteq> auth_userId u then (Err 403 ''Not authorized'', s)
          else (case application_delete i s of
                  None \<Rightarrow> (server_error, s)
                | Some s' \<Rightarrow> (Ok 200 ''Application withdrawn'', s')))"

definition DELETE_applications :: "auth \<Rightarrow> ident \<Rightarrow> store \<Rightarrow> string reply \<times> store" where
  "DELETE_applications u i s =
     requireRole [JOB_SEEKER] u s (DELETE_applications_handler u i s)"

section \<open>The saved-job routes\<close>

text \<open>\<open>POST /saved-jobs/:jobId\<close>.\<close>

definition POST_saved_jobs_handler ::
  "auth \<Rightarrow> ident \<Rightarrow> ident \<Rightarrow> nat \<Rightarrow> store \<Rightarrow> string reply \<times> store" where
  "POST_saved_jobs_handler u jobId newId now s =
     (case job_findUnique jobId s of
        None \<Rightarrow> (Err 404 ''Job not found'', s)
      | Some j \<Rightarrow>
          (case savedJob_findUnique_userId_jobId (auth_userId u) jobId s of
             Some existing \<Rightarrow> (Err 400 ''Job already saved'', s)
           | None \<Rightarrow>
               (case savedJob_create newId now (auth_userId u) jobId s of
                  None \<Rightarrow> (server_error, s)
                | Some (x, s') \<Rightarrow> (Ok 200 ''Job saved'', s'))))"

definition POST_saved_jobs ::
  "auth \<Rightarrow> ident \<Rightarrow> ident \<Rightarrow> nat \<Rightarrow> store \<Rightarrow> string reply \<times> store" where
  "POST_saved_jobs u jobId newId now s =
     requireRole [JOB_SEEKER] u s (POST_saved_jobs_handler u jobId newId now s)"

text \<open>\<open>DELETE /saved-jobs/:jobId\<close>.\<close>

definition DELETE_saved_jobs_handler :: "auth \<Rightarrow> ident \<Rightarrow> store \<Rightarrow> string reply \<times> store" where
  "DELETE_saved_jobs_handler u jobId s =
     (case savedJob_findUnique_userId_jobId (auth_userId u) jobId s of
        None \<Rightarrow> (Err 404 ''Saved job not found'', s)
      | Some x \<Rightarrow>
          (case savedJob_delete_userId_jobId (auth_userId u) jobId s of
             None \<Rightarrow> (server_error, s)
           | Some s' \<Rightarrow> (Ok 200 ''Job removed from saved'', s')))"

definition DELETE_saved_jobs :: "auth \<Rightarrow> ident \<Rightarrow> store \<Rightarrow> string reply \<times> store" where
  "DELETE_saved_jobs u jobId s =
     requireRole [JOB_SEEKER] u s (DELETE_saved_jobs_handler u jobId s)"

text \<open>\<open>GET /saved-jobs/check/:jobId\<close>: the reply is \<open>{ isSaved: !!savedJob }\<close>.\<close>

definition GET_saved_jobs_check_handler :: "auth \<Rightarrow> ident \<Rightarrow> store \<Rightarrow> bool reply \<times> store" where
  "GET_saved_jobs_check_handler u jobId s =
     (Ok 200 (savedJob_findUnique_userId_jobId (auth_userId u) jobId s \<noteq> None), s)"

definition GET_saved_jobs_check :: "auth \<Rightarrow> ident \<Rightarrow> store \<Rightarrow> bool reply \<times> store" where
  "GET_saved_jobs_check u jobId s =
     requireRole [JOB_SEEKER] u s (GET_saved_jobs_check_handler u jobId s)"

section \<open>The profile routes\<close>

text \<open>\<open>GET /profile\<close>: \<open>user.name\<close> throws when the user row is gone.\<close>

definition GET_profile :: "auth \<Rightarrow> ident \<Rightarrow> store \<Rightarrow> profile_view reply \<times> store" where
  "GET_profile u newId s =
     (case profile_findUnique_userId (auth_userId u) s of
        Some p \<Rightarrow> (Ok 200 (profile_include_ordered p s), s)
      | None \<Rightarrow>
          (case user_findUnique (auth_userId u) s of
             None \<Rightarrow> (server_error, s)
           | Some usr \<Rightarrow>
               (case profile_create newId (auth_userId u) (Some (user_name usr)) s of
                  None \<Rightarrow> (server_error, s)
                | Some (p, s') \<Rightarrow> (Ok 200 (profile_include p s'), s'))))"

text \<open>\<open>GET /profile/:userId\<close> (public).\<close>

definition GET_profile_userId :: "ident \<Rightarrow> store \<Rightarrow> profile_view reply \<times> store" where
  "GET_profile_userId userId s =
     (case profile_findUnique_userId userId s of
        None \<Rightarrow> (Err 404 ''Profile not found'', s)
      | Some p \<Rightarrow> (Ok 200 (profile_include_ordered p s), s))"

text \<open>\<open>POST /profile/experience\<close>: the profile is created first when there is none.\<close>

definition POST_profile_experience ::
  "auth \<Rightarrow> jsobject \<Rightarrow> ident \<Rightarrow> ident \<Rightarrow> store \<Rightarrow> (string \<times> experience) reply \<times> store" where
  "POST_profile_experience u body newProfileId newId s =
     (let title = field body ''title''; company = field body ''company'';
          location = field body ''location''; startDate = field body ''startDate'';
          endDate = field body ''endDate''; current = field body ''current'';
          description = field body ''description''
      in if \<not> truthy title \<or> \<not> truthy company \<or> \<not> truthy startDate
         then (Err 400 ''Title, company, and start date are required'', s)
         else
           (case (case profile_findUnique_userId (auth_userId u) s of
                    Some p \<Rightarrow> Some (p, s)
                  | None \<Rightarrow> profile_create newProfileId (auth_userId u) None s) of
              None \<Rightarrow> (server_error, s)
            | Some (p, s1) \<Rightarrow>
                (case experience_create newId (profile_id p) title company location startDate
                        (if truthy current then JNull else endDate)
                        (js_or current (JBool False)) description s1 of
                   None \<Rightarrow> (server_error, s1)
                 | Some (e, s2) \<Rightarrow> (Ok 201 (''Experience added'', e), s2))))"

text \<open>\<open>PUT /profile/experience/:id\<close>: \<open>existing.profile.userId\<close> throws when the
  profile is \<open>null\<close>.\<close>

definition PUT_profile_experience ::
  "auth \<Rightarrow> ident \<Rightarrow> jsobject \<Rightarrow> store \<Rightarrow> (string \<times> experience) reply \<times> store" where
  "PUT_profile_experience u i body s =
     (let title = field body ''title''; company = field body ''company'';
          location = field body ''location''; startDate = field body ''startDate'';
          endDate = field body ''endDate''; current = field body ''current'';
          description = field body ''description''
      in case experience_findUnique i s of
           None \<Rightarrow> (Err 403 ''Not authorized'', s)
         | Some existing \<Rightarrow>
             (case profile_findUnique (exp_profileId existing) s of
                None \<Rightarrow> (server_error, s)
              | Some p \<Rightarrow>
                  if profile_userId p \<noteq> auth_userId u then (Err 403 ''Not authorized'', s)
                  else
                    (case experience_update i title company location startDate
                            (if truthy current then JNull else endDate)
                            (js_or current (JBool False)) description s of
                       None \<Rightarrow> (server_error, s)
                     | Some (e, s') \<Rightarrow> (Ok 200 (''Experience updated'', e), s'))))"

text \<open>\<open>DELETE /profile/experience/:id\<close>.\<close>

definition DELETE_profile_experience :: "auth \<Rightarrow> ident \<Rightarrow> store \<Rightarrow> string reply \<times> store" where
  "DELETE_profile_experience u i s =
     (case experience_findUnique i s of
        None \<Rightarrow> (Err 403 ''Not authorized'', s)
      | Some existing \<Rightarrow>
          (case profile_findUnique (exp_profileId existing) s of
             None \<Rightarrow> (server_error, s)
           | Some p \<Rightarrow>
               if profile_userId p \<noteq> auth_userId u then (Err 403 ''Not authorized'', s)
               else (case experience_delete i s of
                       None \<Rightarrow> (server_error, s)
                     | Some s' \<Rightarrow> (Ok 200 ''Experience deleted'', s'))))"

text \<open>\<open>PUT /profile/education/:id\<close>.\<close>

definition PUT_profile_education ::
  "auth \<Rightarrow> ident \<Rightarrow> jsobject \<Rightarrow> store \<Rightarrow> (string \<times> education) reply \<times> store" where
  "PUT_profile_education u i body s =
     (let institution = field body ''institution''; degree = field body ''degree'';
          fieldOfStudy = field body ''fieldOfStudy''; startYear = field body ''startYear'';
          endYear = field body ''endYear''; grade = field body ''grade''
      in case education_findUnique i s of
           None \<Rightarrow> (Err 403 ''Not authorized'', s)
         | Some existing \<Rightarrow>
             (case profile_findUnique (edu_profileId existing) s of
                None \<Rightarrow> (server_error, s)
              | Some p \<Rightarrow>
                  if profile_userId p \<noteq> auth_userId u then (Err 403 ''Not authorized'', s)
                  else
                    (case education_update i institution degree fieldOfStudy startYear
                            endYear grade s of
                       None \<Rightarrow> (server_error, s)
                     | Some (e, s') \<Rightarrow> (Ok 200 (''Education updated'', e), s'))))"

text \<open>\<open>DELETE /profile/education/:id\<close>.\<close>

definition DELETE_profile_education :: "auth \<Rightarrow> ident \<Rightarrow> store \<Rightarrow> string reply \<times> store" where
  "DELETE_profile_education u i s =
     (case education_findUnique i s of
        None \<Rightarrow> (Err 403 ''Not authorized'', s)
      | Some existing \<Rightarrow>
          (case profile_findUnique (edu_profileId existing) s of
             None \<Rightarrow> (server_error, s)
           | Some p \<Rightarrow>
               if profile_userId p \<noteq> auth_userId u then (Err 403 ''Not authorized'', s)
               else (case education_delete i s of
                       None \<Rightarrow> (server_error, s)
                     | Some s' \<Rightarrow> (Ok 200 ''Education deleted'', s'))))"

section \<open>The admin routes\<close>

text \<open>The loop of \<open>DELETE /admin/users/:id\<close> over the user's jobs.\<close>

fun delete_job_relations :: "job list \<Rightarrow> store \<Rightarrow> store" where
  "delete_job_relations [] s = s"
| "delete_job_relations (j # rest) s =
     delete_job_relations rest
       (savedJob_deleteMany_jobId (job_id j) (application_deleteMany_jobId (job_id j) s))"

text \<open>\<open>DELETE /admin/users/:id\<close>: the steps are not in a transaction, so a failure
  leaves the deletions made before it.\<close>

definition DELETE_admin_users_handler ::
  "schema \<Rightarrow> ident \<Rightarrow> store \<Rightarrow> string reply \<times> store" where
  "DELETE_admin_users_handler sch i s =
     (let s1 = application_deleteMany_userId i s;
          s2 = savedJob_deleteMany_userId i s1;
          userJobs = job_findMany_recruiter i s2;
          s3 = delete_job_relations userJobs s2
      in case job_deleteMany_recruiter i s3 of
           None \<Rightarrow> (server_error, s3)
         | Some s4 \<Rightarrow>
             (case user_delete sch i s4 of
                None \<Rightarrow> (server_error, s4)
              | Some s5 \<Rightarrow> (Ok 200 ''User deleted'', s5)))"

definition DELETE_admin_users ::
  "schema \<Rightarrow> auth \<Rightarrow> ident \<Rightarrow> store \<Rightarrow> string reply \<times> store" where
  "DELETE_admin_users sch u i s = requireRole [ADMIN] u s (DELETE_admin_users_handler sch i s)"

section \<open>Notions used in the statements\<close>

definition newest_first :: "job list \<Rightarrow> bool" where
  "newest_first js = sorted_wrt (\<lambda>a b. job_createdAt b \<le> job_createdAt a) js"

text \<open>At most one application per pair of a user and a job.\<close>

definition unique_applications :: "store \<Rightarrow> bool" where
  "unique_applications s = distinct (map (\<lambda>a. (app_userId a, app_jobId a)) (applications s))"

definition applications_of :: "ident \<Rightarrow> ident \<Rightarrow> store \<Rightarrow> application list" where
  "applications_of uid jid s =
     filter (\<lambda>a. app_userId a = uid \<and> app_jobId a = jid) (applications s)"

definition savedJobs_of :: "ident \<Rightarrow> ident \<Rightarrow> store \<Rightarrow> savedJob list" where
  "savedJobs_of uid jid s =
     filter (\<lambda>x. saved_userId x = uid \<and> saved_jobId x = jid) (savedJobs s)"

definition profiles_of :: "ident \<Rightarrow> store \<Rightarrow> profile list" where
  "profiles_of uid s = filter (\<lambda>p. profile_userId p = uid) (profiles s)"

text \<open>Any number of \<open>GET /profile\<close> requests of one user, one fresh id offered to each.\<close>

fun GET_profile_repeat :: "auth \<Rightarrow> ident list \<Rightarrow> store \<Rightarrow> store" where
  "GET_profile_repeat u [] s = s"
| "GET_profile_repeat u (newId # rest) s = GET_profile_repeat u rest (snd (GET_profile u newId s))"

text \<open>The store after the handler's deletions of applications and saved jobs.\<close>

definition relations_deleted :: "ident \<Rightarrow> store \<Rightarrow> store" where
  "relations_deleted i s =
     delete_job_relations
       (job_findMany_recruiter i
          (savedJob_deleteMany_userId i (application_deleteMany_userId i s)))
       (savedJob_deleteMany_userId i (application_deleteMany_userId i s))"

section \<open>A small portal, for the examples\<close>

definition recruiter1 :: user where
  "recruiter1 = \<lparr> user_id = ''r1'', user_name = ''Rita'', user_email = ''rita@acme.test'',
                  user_role = RECRUITER \<rparr>"

definition recruiter2 :: user where
  "recruiter2 = \<lparr> user_id = ''r2'', user_name = ''Raj'', user_email = ''raj@globex.test'',
                  user_role = RECRUITER \<rparr>"

definition seeker1 :: user where
  "seeker1 = \<lparr> user_id = ''u1'', user_name = ''Sam'', user_email = ''sam@mail.test'',
               user_role = JOB_SEEKER \<rparr>"

definition admin1 :: user where
  "admin1 = \<lparr> user_id = ''a1'', user_name = ''Ada'', user_email = ''ada@portal.test'',
              user_role = ADMIN \<rparr>"

definition job1 :: job where
  "job1 = \<lparr> job_id = ''j1'', job_title = ''Engineer'', job_company = ''Acme'',
            job_location = ''Remote'', job_category = ''frontend'', job_type = ''FULL_TIME'',
            job_salary = ''100k'', job_description = ''Build the site'',
            job_requirements = None, job_recruiterId = ''r1'', job_createdAt = 10 \<rparr>"

definition job2 :: job where
  "job2 = \<lparr> job_id = ''j2'', job_title = ''Developer'', job_company = ''Globex'',
            job_location = ''Pune'', job_category = ''backend'', job_type = ''FULL_TIME'',
            job_salary = ''90k'', job_description = ''Build the API'',
            job_requirements = Some ''SQL'', job_recruiterId = ''r2'', job_createdAt = 20 \<rparr>"

definition store0 :: store where
  "store0 = \<lparr> users = [recruiter1, recruiter2, seeker1, admin1], profiles = [],
              experiences = [], educations = [], jobs = [job1, job2], applications = [],
              savedJobs = [] \<rparr>"

definition engineer_body :: jsobject where
  "engineer_body = [(''title'', JStr ''Engineer''), (''company'', JStr ''Acme''),
     (''location'', JStr ''Remote''), (''salary'', JStr ''100k''),
     (''description'', JStr ''...'')]"

definition engineer_job :: "string \<Rightarrow> job" where
  "engineer_job category =
     \<lparr> job_id = ''j9'', job_title = ''Engineer'', job_company = ''Acme'',
       job_location = ''Remote'', job_category = category, job_type = ''FULL_TIME'',
       job_salary = ''100k'', job_description = ''...'', job_requirements = None,
       job_recruiterId = ''r1'', job_createdAt = 30 \<rparr>"

definition app1 :: application where
  "app1 = \<lparr> app_id = ''a7'', app_coverLetter = Some ''Hello'', app_status = PENDING,
            app_userId = ''u1'', app_jobId = ''j1'', app_createdAt = 40 \<rparr>"

definition store1 :: store where
  "store1 = store0\<lparr> applications := [app1] \<rparr>"

definition seeker_auth :: auth where
  "seeker_auth = \<lparr> auth_userId = ''u1'', auth_role = JOB_SEEKER \<rparr>"

definition sam_profile :: profile where
  "sam_profile = \<lparr> profile_id = ''p1'', profile_userId = ''u1'', profile_name = Some ''Sam'',
       profile_headline = None, profile_location = None, profile_phone = None,
       profile_about = None, profile_skills = [], profile_resume = None,
       profile_resumeName = None, profile_avatar = None \<rparr>"

definition sam_experience :: experience where
  "sam_experience = \<lparr> exp_id = ''e1'', exp_profileId = ''p1'', exp_title = ''Intern'',
       exp_company = ''Acme'', exp_location = None, exp_startDate = ''2023-01-01T00:00:00Z'',
       exp_endDate = Some ''2023-06-30T00:00:00Z'', exp_current = False,
       exp_description = None \<rparr>"

definition sam_education :: education where
  "sam_education = \<lparr> edu_id = ''d1'', edu_profileId = ''p1'', edu_institution = ''MIT'',
       edu_degree = ''BSc'', edu_fieldOfStudy = ''CS'', edu_startYear = 2019,
       edu_endYear = Some 2023, edu_grade = None \<rparr>"

definition store2 :: store where
  "store2 = store0\<lparr> profiles := [sam_profile], experiences := [sam_experience],
                     educations := [sam_education] \<rparr>"

definition current_body :: jsobject where
  "current_body = [(''title'', JStr ''Engineer''), (''company'', JStr ''Globex''),
     (''startDate'', JStr ''2024-01-01T00:00:00Z''), (''endDate'', JStr ''2024-12-31T00:00:00Z''),
     (''current'', JBool True)]"

definition cascade_schema :: schema where
  "cascade_schema = \<lparr> profile_user_onDelete = Cascade, experience_profile_onDelete = Cascade,
                       education_profile_onDelete = Cascade \<rparr>"

definition restrict_schema :: schema where
  "restrict_schema = \<lparr> profile_user_onDelete = Restrict, experience_profile_onDelete = Restrict,
                        education_profile_onDelete = Restrict \<rparr>"

definition admin_auth :: auth where
  "admin_auth = \<lparr> auth_userId = ''a1'', auth_role = ADMIN \<rparr>"

definition saved1 :: savedJob where
  "saved1 = \<lparr> saved_id = ''s1'', saved_userId = ''u1'', saved_jobId = ''j2'',
               saved_createdAt = 45 \<rparr>"

definition saved2 :: savedJob where
  "saved2 = \<lparr> saved_id = ''s2'', saved_userId = ''u1'', saved_jobId = ''j1'',
               saved_createdAt = 46 \<rparr>"

definition store3 :: store where
  "store3 = store2\<lparr> applications := [app1], savedJobs := [saved1, saved2] \<rparr>"

text \<open>
  An instance of the update parameter, for the examples only: a Job model that takes a
  new text for \<open>title\<close>, \<open>company\<close>, \<open>location\<close>, \<open>category\<close>, \<open>type\<close>,
  \<open>salary\<close> and \<open>description\<close> and refuses every other key.
\<close>

definition sample_set :: "string \<times> jsval \<Rightarrow> job \<Rightarrow> job option" where
  "sample_set kv j =
     (case snd kv of
        JStr x \<Rightarrow>
          if fst kv = ''title'' then Some (j\<lparr> job_title := x \<rparr>)
          else if fst kv = ''company'' then Some (j\<lparr> job_company := x \<rparr>)
          else if fst kv = ''location'' then Some (j\<lparr> job_location := x \<rparr>)
          else if fst kv = ''category'' then Some (j\<lparr> job_category := x \<rparr>)
          else if fst kv = ''type'' then Some (j\<lparr> job_type := x \<rparr>)
          else if fst kv = ''salary'' then Some (j\<lparr> job_salary := x \<rparr>)
          else if fst kv = ''description'' then Some (j\<lparr> job_description := x \<rparr>)
          else None
      | _ \<Rightarrow> None)"

fun sample_set_all :: "jsobject \<Rightarrow> job \<Rightarrow> job option" where
  "sample_set_all [] j = Some j"
| "sample_set_all (kv # rest) j =
     (case sample_set kv j of None \<Rightarrow> None | Some j' \<Rightarrow> sample_set_all rest j')"

definition sample_job_update :: job_updater where
  "sample_job_update i data s =
     (case job_findUnique i s of
        None \<Rightarrow> None
      | Some j \<Rightarrow>
          (case sample_set_all data j of
             None \<Rightarrow> None
           | Some j' \<Rightarrow>
               Some (j', s\<lparr> jobs := map (\<lambda>x. if job_id x = i then j' else x) (jobs s) \<rparr>)))"

lemmas portal_defs = store0_def recruiter1_def recruiter2_def seeker1_def admin1_def
  job1_def job2_def

section \<open>Facts about the operators and the store\<close>

lemma normalizeCategory_mobile: "normalizeCategory (JStr ''mobile'') = None"
  by code_simp

lemma normalizeCategory_Frontend: "normalizeCategory (JStr ''Frontend'') = Some ''frontend''"
  by code_simp

lemma normalizeCategory_frontend: "normalizeCategory (JStr ''frontend'') = Some ''frontend''"
  by code_simp

lemma normalizeCategory_bogus: "normalizeCategory (JStr ''bogus'') = None"
  by code_simp

lemma normalizeCategory_nullish: "nullish v \<Longrightarrow> normalizeCategory v = None"
  by (cases v) simp_all

lemma normalizeCategory_in_categories:
  "normalizeCategory v = Some c \<Longrightarrow> c \<in> set JOB_CATEGORIES"
  by (cases v) (auto simp: normalizeCategory.simps(1) Let_def split: if_splits)

lemma invalid_role_message_text:
  "invalid_role_message = ''Invalid role. Use one of: frontend, backend, fullstack''"
  by (simp add: invalid_role_message_def JOB_CATEGORIES_def)

text \<open>Looking a row up by a key, after a row was appended, removed or replaced.\<close>

lemma find_snoc_absent: "find P xs = None \<Longrightarrow> find P (xs @ [a]) = (if P a then Some a else None)"
  by (induction xs) (auto split: if_splits)

lemma find_snoc_Some: "P a \<Longrightarrow> find P (xs @ [a]) \<noteq> None"
  by (auto simp add: find_None_iff)

lemma filter_fresh:
  "find (\<lambda>x. f x = i) xs = None \<Longrightarrow> filter (\<lambda>x. f x \<noteq> i) xs = xs"
  by (induction xs) (auto split: if_splits)

lemma filter_absent_nil: "find P xs = None \<Longrightarrow> filter P xs = []"
  by (induction xs) (auto split: if_splits)

lemma filter_not_absent: "find P xs = None \<Longrightarrow> filter (\<lambda>x. \<not> P x) xs = xs"
  by (induction xs) (auto split: if_splits)

lemma find_map_replace:
  "find (\<lambda>x. f x = i) xs = Some old \<Longrightarrow> f e = i \<Longrightarrow>
   find (\<lambda>x. f x = i) (map (\<lambda>x. if f x = i then e else x) xs) = Some e"
  by (induction xs) (auto split: if_splits)

lemma orderByDesc_mset: "mset (orderByDesc f xs) = mset xs"
  by (simp add: orderByDesc_def)

lemma orderByDesc_sorted: "sorted_wrt (\<lambda>a b. f b \<le> f a) (orderByDesc f xs)"
proof -
  have "sorted (map f (sort_key f xs))"
    by (rule sorted_sort_key)
  then have "sorted_wrt (\<lambda>a b. f a \<le> f b) (sort_key f xs)"
    by (simp add: sorted_map)
  then show ?thesis
    by (simp add: orderByDesc_def sorted_wrt_rev)
qed

lemma listing_jobs:
  "map fst (job_findMany_listing c s) =
     orderByDesc job_createdAt
       (case c of None \<Rightarrow> jobs s | Some x \<Rightarrow> filter (\<lambda>j. job_category j = x) (jobs s))"
  by (simp add: job_findMany_listing_def comp_def)

lemma listing_mset:
  "mset (map fst (job_findMany_listing c s)) =
     mset (case c of None \<Rightarrow> jobs s | Some x \<Rightarrow> filter (\<lambda>j. job_category j = x) (jobs s))"
  unfolding listing_jobs by (rule orderByDesc_mset)

lemma listing_newest_first: "newest_first (map fst (job_findMany_listing c s))"
  unfolding listing_jobs newest_first_def by (rule orderByDesc_sorted)

section \<open>Creating a job\<close>

text \<open>
  Without a role or category the stored job has category \<open>fullstack\<close>, and a category
  is stored normalized.
\<close>

lemma POST_jobs_default_category:
  "POST_jobs \<lparr> auth_userId = ''r1'', auth_role = RECRUITER \<rparr> engineer_body ''j9'' 30 store0
   = (Ok 201 (''Job created'', engineer_job ''fullstack''),
      store0\<lparr> jobs := jobs store0 @ [engineer_job ''fullstack''] \<rparr>)"
  by (simp add: POST_jobs_def requireRole_def POST_jobs_handler_def field_def coalesce_def
      job_create_def js_or_def job_findUnique_def user_exists_def user_findUnique_def
      engineer_body_def engineer_job_def portal_defs Let_def)

lemma POST_jobs_mixed_case_category:
  "POST_jobs \<lparr> auth_userId = ''r1'', auth_role = RECRUITER \<rparr>
     (engineer_body @ [(''category'', JStr ''Frontend'')]) ''j9'' 30 store0
   = (Ok 201 (''Job created'', engineer_job ''frontend''),
      store0\<lparr> jobs := jobs store0 @ [engineer_job ''frontend''] \<rparr>)"
  by (simp add: POST_jobs_def requireRole_def POST_jobs_handler_def field_def coalesce_def
      job_create_def js_or_def job_findUnique_def user_exists_def user_findUnique_def
      engineer_body_def engineer_job_def portal_defs Let_def normalizeCategory_Frontend)

text \<open>
  Whatever the request, the stored category is one of the three, and the handler never
  answers with the listing's and the update's refusal of an invalid role.
\<close>

lemma POST_jobs_stored_category:
  assumes "POST_jobs u body newId now s = (Ok c (m, j), s')"
  shows "job_category j
           = (case normalizeCategory (coalesce (field body ''role'') (field body ''category'')) of
                None \<Rightarrow> ''fullstack''
              | Some x \<Rightarrow> x)
         \<and> job_category j \<in> set JOB_CATEGORIES"
proof -
  from assms have eq: "job_category j
           = (case normalizeCategory (coalesce (field body ''role'') (field body ''category'')) of
                None \<Rightarrow> ''fullstack''
              | Some x \<Rightarrow> x)"
    by (auto simp add: POST_jobs_def requireRole_def role_denied_def POST_jobs_handler_def
        job_create_def server_error_def Let_def split: if_splits option.splits)
  show ?thesis
  proof (cases "normalizeCategory (coalesce (field body ''role'') (field body ''category''))")
    case None
    with eq show ?thesis
      by (simp add: JOB_CATEGORIES_def)
  next
    case (Some x)
    with eq normalizeCategory_in_categories [OF Some] show ?thesis
      by simp
  qed
qed

lemma POST_jobs_never_refuses_a_category:
  "fst (POST_jobs u body newId now s) \<noteq> Err 400 invalid_role_message"
  by (auto simp add: POST_jobs_def requireRole_def role_denied_def POST_jobs_handler_def
      server_error_def invalid_role_message_text Let_def split: option.splits)

text \<open>
  C1. The claim: a job posted without a category is stored as \<open>fullstack\<close>, one posted
  with category \<open>Frontend\<close> as \<open>frontend\<close>, and one posted with category \<open>mobile\<close> is
  refused with 400 and not created. The first two hold (above). For \<open>mobile\<close> the
  handler answers 201 and stores the job with category \<open>fullstack\<close>: it falls back to
  the default where the listing and the update refuse the value.
\<close>

theorem C1_invalid_category_is_stored_as_fullstack:
  "POST_jobs \<lparr> auth_userId = ''r1'', auth_role = RECRUITER \<rparr>
     (engineer_body @ [(''category'', JStr ''mobile'')]) ''j9'' 30 store0
   = (Ok 201 (''Job created'', engineer_job ''fullstack''),
      store0\<lparr> jobs := jobs store0 @ [engineer_job ''fullstack''] \<rparr>)"
  by (simp add: POST_jobs_def requireRole_def POST_jobs_handler_def field_def coalesce_def
      job_create_def js_or_def job_findUnique_def user_exists_def user_findUnique_def
      engineer_body_def engineer_job_def portal_defs Let_def normalizeCategory_mobile)

section \<open>The public listing\<close>

lemma GET_jobs_example:
  "fst (GET_jobs [(''category'', JStr ''frontend'')] store0)
     = Ok 200 [(job1, Some (''r1'', ''Rita'', ''rita@acme.test''))]
   \<and> fst (GET_jobs [(''role'', JStr '' Backend '')] store0)
     = Ok 200 [(job2, Some (''r2'', ''Raj'', ''raj@globex.test''))]
   \<and> fst (GET_jobs [] store0)
     = Ok 200 [(job2, Some (''r2'', ''Raj'', ''raj@globex.test'')),
               (job1, Some (''r1'', ''Rita'', ''rita@acme.test''))]"
proof -
  have n: "normalizeCategory (JStr '' Backend '') = Some ''backend''"
    by code_simp
  show ?thesis
    by (simp add: GET_jobs_def field_def coalesce_def normalizeCategory_frontend n Let_def
        job_findMany_listing_def orderByDesc_def user_findUnique_def user_summary_def
        portal_defs)
qed

text \<open>
  C6. Listing with category \<open>frontend\<close> returns exactly the jobs whose stored category
  is \<open>frontend\<close>; listing with category \<open>bogus\<close> fails with 400 (BadRequest); listing
  without a category returns all jobs, newest first. The category of a request is
  \<open>role ?? category\<close> of its query.
\<close>

theorem C6_public_listing:
  "(coalesce (field query ''role'') (field query ''category'') = JStr ''frontend'' \<longrightarrow>
      (\<exists>listing. GET_jobs query s = (Ok 200 listing, s)
         \<and> mset (map fst listing) = mset (filter (\<lambda>j. job_category j = ''frontend'') (jobs s))
         \<and> newest_first (map fst listing)))
   \<and> (coalesce (field query ''role'') (field query ''category'') = JStr ''bogus'' \<longrightarrow>
      GET_jobs query s
        = (Err 400 ''Invalid role. Use one of: frontend, backend, fullstack'', s)
      \<and> error_class_of 400 = Some BadRequest)
   \<and> (nullish (field query ''role'') \<and> nullish (field query ''category'') \<longrightarrow>
      (\<exists>listing. GET_jobs query s = (Ok 200 listing, s)
         \<and> mset (map fst listing) = mset (jobs s)
         \<and> newest_first (map fst listing)))"
proof -
  let ?q = "coalesce (field query ''role'') (field query ''category'')"
  have a: "GET_jobs query s = (Ok 200 (job_findMany_listing (Some ''frontend'') s), s)"
    if "?q = JStr ''frontend''"
    using that by (simp add: GET_jobs_def normalizeCategory_frontend Let_def)
  have b: "GET_jobs query s
             = (Err 400 ''Invalid role. Use one of: frontend, backend, fullstack'', s)"
    if "?q = JStr ''bogus''"
    using that
    by (simp add: GET_jobs_def normalizeCategory_bogus Let_def invalid_role_message_text)
  have c: "GET_jobs query s = (Ok 200 (job_findMany_listing None s), s)"
    if "nullish (field query ''role'')" "nullish (field query ''category'')"
    using that by (simp add: GET_jobs_def coalesce_def normalizeCategory_nullish Let_def)
  have a': "mset (map fst (job_findMany_listing (Some ''frontend'') s))
              = mset (filter (\<lambda>j. job_category j = ''frontend'') (jobs s))"
    using listing_mset [of "Some ''frontend''" s] by simp
  have c': "mset (map fst (job_findMany_listing None s)) = mset (jobs s)"
    using listing_mset [of None s] by simp
  have cls: "error_class_of 400 = Some BadRequest"
    by simp
  from a a' listing_newest_first have 1:
    "?q = JStr ''frontend'' \<longrightarrow>
      (\<exists>listing. GET_jobs query s = (Ok 200 listing, s)
         \<and> mset (map fst listing) = mset (filter (\<lambda>j. job_category j = ''frontend'') (jobs s))
         \<and> newest_first (map fst listing))"
    by blast
  from c c' listing_newest_first have 3:
    "nullish (field query ''role'') \<and> nullish (field query ''category'') \<longrightarrow>
      (\<exists>listing. GET_jobs query s = (Ok 200 listing, s)
         \<and> mset (map fst listing) = mset (jobs s)
         \<and> newest_first (map fst listing))"
    by blast
  from 1 b cls 3 show ?thesis
    by blast
qed

theorem C6_public_listing_witness:
  "coalesce (field [(''category'', JStr ''frontend'')] ''role'')
     (field [(''category'', JStr ''frontend'')] ''category'') = JStr ''frontend''
   \<and> fst (GET_jobs [(''category'', JStr ''frontend'')] store0)
     = Ok 200 [(job1, Some (''r1'', ''Rita'', ''rita@acme.test''))]
   \<and> filter (\<lambda>j. job_category j = ''frontend'') (jobs store0) = [job1]
   \<and> GET_jobs [(''category'', JStr ''bogus'')] store0
     = (Err 400 ''Invalid role. Use one of: frontend, backend, fullstack'', store0)
   \<and> fst (GET_jobs [] store0)
     = Ok 200 [(job2, Some (''r2'', ''Raj'', ''raj@globex.test'')),
               (job1, Some (''r1'', ''Rita'', ''rita@acme.test''))]
   \<and> job_createdAt job1 < job_createdAt job2"
proof -
  have h1: "coalesce (field [(''category'', JStr ''frontend'')] ''role'')
     (field [(''category'', JStr ''frontend'')] ''category'') = JStr ''frontend''"
    by (simp add: coalesce_def field_def)
  have h2: "coalesce (field [(''category'', JStr ''bogus'')] ''role'')
     (field [(''category'', JStr ''bogus'')] ''category'') = JStr ''bogus''"
    by (simp add: coalesce_def field_def)
  have h3: "nullish (field [] ''role'') \<and> nullish (field [] ''category'')"
    by (simp add: field_def)
  have f: "filter (\<lambda>j. job_category j = ''frontend'') (jobs store0) = [job1]"
    "job_createdAt job1 < job_createdAt job2"
    by (simp_all add: portal_defs)
  from C6_public_listing [of "[(''category'', JStr ''frontend'')]" store0]
    C6_public_listing [of "[(''category'', JStr ''bogus'')]" store0]
    C6_public_listing [of "[]" store0] h1 h2 h3 f GET_jobs_example
  show ?thesis
    by simp
qed

section \<open>Updating and deleting a job\<close>















lemmas job_route_defs = PUT_jobs_def DELETE_jobs_def requireRole_def role_denied_def
  PUT_jobs_handler_def DELETE_jobs_handler_def job_findUnique_def job_delete_def
  job_referenced_def application_deleteMany_jobId_def savedJob_deleteMany_jobId_def
  updateData_def sample_job_update_def sample_set_def field_def coalesce_def
  delete_key_def set_key_def server_error_def



lemma PUT_jobs_owner_example:
  "PUT_jobs sample_job_update \<lparr> auth_userId = ''r1'', auth_role = RECRUITER \<rparr> ''j1''
     [(''title'', JStr ''Lead Engineer''), (''role'', JStr '' Backend '')] store1
   = (Ok 200 (''Job updated'',
        job1\<lparr> job_title := ''Lead Engineer'', job_category := ''backend'' \<rparr>),
      store1\<lparr> jobs := [job1\<lparr> job_title := ''Lead Engineer'', job_category := ''backend'' \<rparr>,
                          job2] \<rparr>)"
proof -
  have n: "normalizeCategory (JStr '' Backend '') = Some ''backend''"
    by code_simp
  show ?thesis
    by (simp add: job_route_defs store1_def app1_def portal_defs Let_def n)
qed


section \<open>Reading one application\<close>

text \<open>
  C4. The claim: an application is returned only to the applying job seeker or to the
  recruiter who owns its job, every other authenticated user gets Forbidden, and an
  absent id gives 404. The handler checks a job seeker against the applicant and a
  recruiter against the job's owner, and lets an admin through. As amended: 404 when the
  application is absent; a job seeker gets it exactly when they are the applicant, a
  recruiter exactly when they own the job, otherwise 403; an admin always gets it.
\<close>

theorem C4_application_visibility:
  "(application_findUnique i s = None \<longrightarrow>
      GET_applications_id u i s = (Err 404 ''Application not found'', s))
   \<and> (application_findUnique i s = Some a \<and> job_findUnique (app_jobId a) s = Some j \<longrightarrow>
        (auth_role u = JOB_SEEKER \<longrightarrow>
           GET_applications_id u i s
             = (if app_userId a = auth_userId u then (Ok 200 (application_include a s), s)
                else (Err 403 ''Not authorized'', s)))
      \<and> (auth_role u = RECRUITER \<longrightarrow>
           GET_applications_id u i s
             = (if job_recruiterId j = auth_userId u then (Ok 200 (application_include a s), s)
                else (Err 403 ''Not authorized'', s)))
      \<and> (auth_role u = ADMIN \<longrightarrow>
           GET_applications_id u i s = (Ok 200 (application_include a s), s))
      \<and> (auth_role u \<noteq> ADMIN \<and> app_userId a \<noteq> auth_userId u
           \<and> job_recruiterId j \<noteq> auth_userId u \<longrightarrow>
           GET_applications_id u i s = (Err 403 ''Not authorized'', s))
      \<and> (auth_role u \<noteq> ADMIN \<and> status (fst (GET_applications_id u i s)) = 200 \<longrightarrow>
           app_userId a = auth_userId u \<or> job_recruiterId j = auth_userId u))"
  by (cases "auth_role u") (auto simp add: GET_applications_id_def)

theorem C4_admin_reads_any_application_counterexample:
  "application_findUnique ''a7'' store1 = Some app1 \<and> app_userId app1 = ''u1''
   \<and> job_findUnique (app_jobId app1) store1 = Some job1 \<and> job_recruiterId job1 = ''r1''
   \<and> GET_applications_id \<lparr> auth_userId = ''a1'', auth_role = ADMIN \<rparr> ''a7'' store1
       = (Ok 200 (app1, Some job1, Some (''u1'', ''Sam'', ''sam@mail.test'')), store1)"
  by (simp add: GET_applications_id_def application_findUnique_def application_include_def
      job_findUnique_def user_findUnique_def user_summary_def store1_def app1_def portal_defs)

theorem C4_application_visibility_witness:
  "application_findUnique ''a7'' store1 = Some app1
   \<and> job_findUnique (app_jobId app1) store1 = Some job1
   \<and> application_findUnique ''zz'' store1 = None
   \<and> GET_applications_id \<lparr> auth_userId = ''u1'', auth_role = JOB_SEEKER \<rparr> ''zz'' store1
       = (Err 404 ''Application not found'', store1)
   \<and> fst (GET_applications_id \<lparr> auth_userId = ''u1'', auth_role = JOB_SEEKER \<rparr> ''a7'' store1)
       = Ok 200 (application_include app1 store1)
   \<and> fst (GET_applications_id \<lparr> auth_userId = ''r1'', auth_role = RECRUITER \<rparr> ''a7'' store1)
       = Ok 200 (application_include app1 store1)
   \<and> fst (GET_applications_id \<lparr> auth_userId = ''r2'', auth_role = RECRUITER \<rparr> ''a7'' store1)
       = Err 403 ''Not authorized''"
proof -
  have h: "application_findUnique ''a7'' store1 = Some app1"
    by (simp add: application_findUnique_def store1_def app1_def)
  have k: "job_findUnique (app_jobId app1) store1 = Some job1"
    by (simp add: job_findUnique_def store1_def app1_def portal_defs)
  have n: "application_findUnique ''zz'' store1 = None"
    by (simp add: application_findUnique_def store1_def app1_def)
  have o: "job_recruiterId job1 = ''r1''" "app_userId app1 = ''u1''"
    by (simp_all add: job1_def app1_def)
  show ?thesis
    using h k n o
      C4_application_visibility [of "''zz''" store1
        "\<lparr> auth_userId = ''u1'', auth_role = JOB_SEEKER \<rparr>" app1 job1]
      C4_application_visibility [of "''a7''" store1
        "\<lparr> auth_userId = ''u1'', auth_role = JOB_SEEKER \<rparr>" app1 job1]
      C4_application_visibility [of "''a7''" store1
        "\<lparr> auth_userId = ''r1'', auth_role = RECRUITER \<rparr>" app1 job1]
      C4_application_visibility [of "''a7''" store1
        "\<lparr> auth_userId = ''r2'', auth_role = RECRUITER \<rparr>" app1 job1]
    by simp
qed

section \<open>Applying and withdrawing\<close>

lemma application_create_ok:
  assumes "opt_string coverLetter = Some cl"
    and "application_findUnique newId s = None"
    and "application_findUnique_userId_jobId uid jid s = None"
    and "user_exists uid s" and "job_findUnique jid s = Some j"
  shows "application_create newId now coverLetter uid jid s
         = Some (\<lparr> app_id = newId, app_coverLetter = cl, app_status = PENDING,
                   app_userId = uid, app_jobId = jid, app_createdAt = now \<rparr>,
                 s\<lparr> applications := applications s @
                      [\<lparr> app_id = newId, app_coverLetter = cl, app_status = PENDING,
                         app_userId = uid, app_jobId = jid, app_createdAt = now \<rparr>] \<rparr>)"
  using assms by (simp add: application_create_def Let_def)

lemma POST_applications_job_first:
  assumes "auth_role u = JOB_SEEKER"
    and "opt_string (field body ''coverLetter'') = Some cl"
    and "application_findUnique newId s = None"
    and "application_findUnique_userId_jobId (auth_userId u) jid s = None"
    and "user_exists (auth_userId u) s" and "job_findUnique jid s = Some j"
  shows "POST_applications_job u jid body newId now s
         = (Ok 201 (''Application submitted'',
              \<lparr> app_id = newId, app_coverLetter = cl, app_status = PENDING,
                app_userId = auth_userId u, app_jobId = jid, app_createdAt = now \<rparr>),
            s\<lparr> applications := applications s @
                 [\<lparr> app_id = newId, app_coverLetter = cl, app_status = PENDING,
                    app_userId = auth_userId u, app_jobId = jid, app_createdAt = now \<rparr>] \<rparr>)"
  using assms application_create_ok [OF assms(2-6)]
  by (simp add: POST_applications_job_def requireRole_def POST_applications_job_handler_def
      Let_def)

lemma POST_applications_job_again:
  assumes "auth_role u = JOB_SEEKER" and "job_findUnique jid s = Some j"
    and "application_findUnique_userId_jobId (auth_userId u) jid s \<noteq> None"
  shows "POST_applications_job u jid body newId now s
         = (Err 400 ''Already applied to this job'', s)"
  using assms
  by (auto simp add: POST_applications_job_def requireRole_def
      POST_applications_job_handler_def Let_def)

lemma DELETE_applications_own:
  assumes "auth_role u = JOB_SEEKER" and "application_findUnique i s = Some a"
    and "app_userId a = auth_userId u"
  shows "DELETE_applications u i s
         = (Ok 200 ''Application withdrawn'',
            s\<lparr> applications := filter (\<lambda>x. app_id x \<noteq> i) (applications s) \<rparr>)"
  using assms
  by (simp add: DELETE_applications_def requireRole_def DELETE_applications_handler_def
      application_delete_def)

text \<open>The invariant: every route keeps at most one application per user and job.\<close>

lemma POST_applications_job_unique:
  assumes "unique_applications s"
  shows "unique_applications (snd (POST_applications_job u jid body newId now s))"
proof -
  have "unique_applications s'"
    if "application_create newId now (field body ''coverLetter'') (auth_userId u) jid s
          = Some (a, s')" for a s'
  proof -
    from that have n: "application_findUnique_userId_jobId (auth_userId u) jid s = None"
      and s': "applications s' = applications s @ [a]"
      and a: "app_userId a = auth_userId u" "app_jobId a = jid"
      by (auto simp add: application_create_def Let_def split: option.splits if_splits)
    from n have "(auth_userId u, jid) \<notin> set (map (\<lambda>a. (app_userId a, app_jobId a)) (applications s))"
      by (auto simp add: application_findUnique_userId_jobId_def find_None_iff)
    with assms s' a show ?thesis
      by (simp add: unique_applications_def)
  qed
  with assms show ?thesis
    by (auto simp add: POST_applications_job_def requireRole_def
        POST_applications_job_handler_def Let_def split: option.splits)
qed

lemma DELETE_applications_unique:
  assumes "unique_applications s"
  shows "unique_applications (snd (DELETE_applications u i s))"
  using assms
  by (auto simp add: DELETE_applications_def requireRole_def DELETE_applications_handler_def
      application_delete_def unique_applications_def distinct_map_filter
      split: option.splits)

text \<open>
  C2. For a job seeker and a job: after a successful apply, a second apply fails with
  400 (BadRequest) and creates no application; after withdrawing the application a new
  apply succeeds; and no apply and no withdrawal ever breaks the invariant that the
  store holds at most one application per user and job.
\<close>

theorem C2_one_application_per_user_and_job:
  assumes "auth_role u = JOB_SEEKER"
    and "user_exists (auth_userId u) s"
    and "job_findUnique jid s = Some j"
    and "application_findUnique_userId_jobId (auth_userId u) jid s = None"
    and "application_findUnique id1 s = None"
    and "opt_string (field body1 ''coverLetter'') = Some cl1"
    and "application_findUnique id3 s = None"
    and "opt_string (field body3 ''coverLetter'') = Some cl3"
  shows
  "\<exists>a s1 a3 s3.
      POST_applications_job u jid body1 id1 t1 s = (Ok 201 (''Application submitted'', a), s1)
    \<and> app_id a = id1 \<and> app_userId a = auth_userId u \<and> app_jobId a = jid
    \<and> app_status a = PENDING
    \<and> applications_of (auth_userId u) jid s1 = [a]
    \<and> POST_applications_job u jid body2 id2 t2 s1 = (Err 400 ''Already applied to this job'', s1)
    \<and> error_class_of 400 = Some BadRequest
    \<and> DELETE_applications u id1 s1 = (Ok 200 ''Application withdrawn'', s)
    \<and> POST_applications_job u jid body3 id3 t3 s = (Ok 201 (''Application submitted'', a3), s3)
    \<and> applications_of (auth_userId u) jid s3 = [a3]
    \<and> (\<forall>u' j' b' n' t' st. unique_applications st \<longrightarrow>
          unique_applications (snd (POST_applications_job u' j' b' n' t' st)))
    \<and> (\<forall>u' i' st. unique_applications st \<longrightarrow>
          unique_applications (snd (DELETE_applications u' i' st)))"
proof -
  let ?a = "\<lparr> app_id = id1, app_coverLetter = cl1, app_status = PENDING,
              app_userId = auth_userId u, app_jobId = jid, app_createdAt = t1 \<rparr>"
  let ?s1 = "s\<lparr> applications := applications s @ [?a] \<rparr>"
  let ?a3 = "\<lparr> app_id = id3, app_coverLetter = cl3, app_status = PENDING,
              app_userId = auth_userId u, app_jobId = jid, app_createdAt = t3 \<rparr>"
  let ?s3 = "s\<lparr> applications := applications s @ [?a3] \<rparr>"
  have first: "POST_applications_job u jid body1 id1 t1 s
                 = (Ok 201 (''Application submitted'', ?a), ?s1)"
    using POST_applications_job_first [OF assms(1) assms(6) assms(5) assms(4) assms(2) assms(3)] .
  have third: "POST_applications_job u jid body3 id3 t3 s
                 = (Ok 201 (''Application submitted'', ?a3), ?s3)"
    using POST_applications_job_first [OF assms(1) assms(8) assms(7) assms(4) assms(2) assms(3)] .
  have none: "filter (\<lambda>a. app_userId a = auth_userId u \<and> app_jobId a = jid) (applications s) = []"
    using assms(4) by (simp add: application_findUnique_userId_jobId_def filter_absent_nil)
  have of1: "applications_of (auth_userId u) jid ?s1 = [?a]"
    using none by (simp add: applications_of_def)
  have of3: "applications_of (auth_userId u) jid ?s3 = [?a3]"
    using none by (simp add: applications_of_def)
  have job1: "job_findUnique jid ?s1 = Some j"
    using assms(3) by (simp add: job_findUnique_def)
  have ex1: "application_findUnique_userId_jobId (auth_userId u) jid ?s1 \<noteq> None"
    unfolding application_findUnique_userId_jobId_def
    by (simp add: find_snoc_Some)
  have second: "POST_applications_job u jid body2 id2 t2 ?s1
                  = (Err 400 ''Already applied to this job'', ?s1)"
    using POST_applications_job_again [OF assms(1) job1 ex1] .
  have found: "application_findUnique id1 ?s1 = Some ?a"
    using assms(5) by (simp add: application_findUnique_def find_snoc_absent)
  have restored: "?s1\<lparr> applications := filter (\<lambda>x. app_id x \<noteq> id1) (applications ?s1) \<rparr> = s"
    using assms(5) by (simp add: application_findUnique_def filter_fresh)
  have withdraw: "DELETE_applications u id1 ?s1 = (Ok 200 ''Application withdrawn'', s)"
    using DELETE_applications_own [OF assms(1) found] restored by simp
  have inv: "\<forall>u' j' b' n' t' st. unique_applications st \<longrightarrow>
          unique_applications (snd (POST_applications_job u' j' b' n' t' st))"
    using POST_applications_job_unique by blast
  have inv': "\<forall>u' i' st. unique_applications st \<longrightarrow>
          unique_applications (snd (DELETE_applications u' i' st))"
    using DELETE_applications_unique by blast
  have cls: "error_class_of 400 = Some BadRequest"
    by simp
  from first second withdraw third of1 of3 inv inv' cls show ?thesis
    by (intro exI [of _ ?a] exI [of _ ?s1] exI [of _ ?a3] exI [of _ ?s3]) simp
qed

theorem C2_one_application_per_user_and_job_witness:
  "auth_role seeker_auth = JOB_SEEKER
   \<and> user_exists (auth_userId seeker_auth) store0
   \<and> job_findUnique ''j1'' store0 = Some job1
   \<and> application_findUnique_userId_jobId (auth_userId seeker_auth) ''j1'' store0 = None
   \<and> POST_applications_job seeker_auth ''j1'' [(''coverLetter'', JStr ''Hello'')] ''a7'' 40 store0
       = (Ok 201 (''Application submitted'', app1), store1)
   \<and> POST_applications_job seeker_auth ''j1'' [] ''a8'' 41 store1
       = (Err 400 ''Already applied to this job'', store1)
   \<and> DELETE_applications seeker_auth ''a7'' store1 = (Ok 200 ''Application withdrawn'', store0)
   \<and> status (fst (POST_applications_job seeker_auth ''j1'' [] ''a8'' 42 store0)) = 201"
proof -
  have h1: "auth_role seeker_auth = JOB_SEEKER"
    by (simp add: seeker_auth_def)
  have h2: "user_exists (auth_userId seeker_auth) store0"
    by (simp add: seeker_auth_def user_exists_def user_findUnique_def portal_defs)
  have h3: "job_findUnique ''j1'' store0 = Some job1"
    by (simp add: job_findUnique_def portal_defs)
  have h4: "application_findUnique_userId_jobId (auth_userId seeker_auth) ''j1'' store0 = None"
    by (simp add: application_findUnique_userId_jobId_def portal_defs)
  have h5: "application_findUnique ''a7'' store0 = None"
    by (simp add: application_findUnique_def portal_defs)
  have h6: "opt_string (field [(''coverLetter'', JStr ''Hello'')] ''coverLetter'') = Some (Some ''Hello'')"
    by (simp add: field_def)
  have h7: "application_findUnique ''a8'' store0 = None"
    by (simp add: application_findUnique_def portal_defs)
  have h8: "opt_string (field [] ''coverLetter'') = Some None"
    by (simp add: field_def)
  have e1: "POST_applications_job seeker_auth ''j1'' [(''coverLetter'', JStr ''Hello'')] ''a7'' 40 store0
       = (Ok 201 (''Application submitted'', app1), store1)"
    by (simp add: POST_applications_job_def requireRole_def POST_applications_job_handler_def
        application_create_def application_findUnique_def application_findUnique_userId_jobId_def
        job_findUnique_def user_exists_def user_findUnique_def field_def Let_def
        seeker_auth_def store1_def app1_def portal_defs)
  from C2_one_application_per_user_and_job [OF h1 h2 h3 h4 h5 h6 h7 h8, of 40 "[]" "''a8''" 41 42]
  obtain a s1 a3 s3 where
    r: "POST_applications_job seeker_auth ''j1'' [(''coverLetter'', JStr ''Hello'')] ''a7'' 40 store0
          = (Ok 201 (''Application submitted'', a), s1)"
      "POST_applications_job seeker_auth ''j1'' [] ''a8'' 41 s1
          = (Err 400 ''Already applied to this job'', s1)"
      "DELETE_applications seeker_auth ''a7'' s1 = (Ok 200 ''Application withdrawn'', store0)"
      "POST_applications_job seeker_auth ''j1'' [] ''a8'' 42 store0
          = (Ok 201 (''Application submitted'', a3), s3)"
    by blast
  from r(1) e1 have "s1 = store1"
    by simp
  with r e1 h1 h2 h3 h4 show ?thesis
    by simp
qed

section \<open>Saving a job\<close>

lemma POST_saved_jobs_first:
  assumes "auth_role u = JOB_SEEKER"
    and "find (\<lambda>x. saved_id x = newId) (savedJobs s) = None"
    and "savedJob_findUnique_userId_jobId (auth_userId u) jid s = None"
    and "user_exists (auth_userId u) s" and "job_findUnique jid s = Some j"
  shows "POST_saved_jobs u jid newId now s
         = (Ok 200 ''Job saved'',
            s\<lparr> savedJobs := savedJobs s @
                 [\<lparr> saved_id = newId, saved_userId = auth_userId u, saved_jobId = jid,
                    saved_createdAt = now \<rparr>] \<rparr>)"
  using assms
  by (simp add: POST_saved_jobs_def requireRole_def POST_saved_jobs_handler_def
      savedJob_create_def Let_def)

lemma POST_saved_jobs_again:
  assumes "auth_role u = JOB_SEEKER" and "job_findUnique jid s = Some j"
    and "savedJob_findUnique_userId_jobId (auth_userId u) jid s \<noteq> None"
  shows "POST_saved_jobs u jid newId now s = (Err 400 ''Job already saved'', s)"
  using assms
  by (auto simp add: POST_saved_jobs_def requireRole_def POST_saved_jobs_handler_def)

lemma DELETE_saved_jobs_present:
  assumes "auth_role u = JOB_SEEKER"
    and "savedJob_findUnique_userId_jobId (auth_userId u) jid s \<noteq> None"
  shows "DELETE_saved_jobs u jid s
         = (Ok 200 ''Job removed from saved'',
            s\<lparr> savedJobs := filter (\<lambda>x. \<not> (saved_userId x = auth_userId u \<and> saved_jobId x = jid))
                               (savedJobs s) \<rparr>)"
  using assms
  by (auto simp add: DELETE_saved_jobs_def requireRole_def DELETE_saved_jobs_handler_def
      savedJob_delete_userId_jobId_def)

lemma savedJob_absent_after_remove:
  "savedJob_findUnique_userId_jobId (auth_userId u) jid (snd (DELETE_saved_jobs u jid s)) = None"
  if "auth_role u = JOB_SEEKER"
proof (cases "savedJob_findUnique_userId_jobId (auth_userId u) jid s")
  case None
  with that show ?thesis
    by (simp add: DELETE_saved_jobs_def requireRole_def DELETE_saved_jobs_handler_def)
next
  case (Some x)
  then have "savedJob_findUnique_userId_jobId (auth_userId u) jid s \<noteq> None"
    by simp
  from DELETE_saved_jobs_present [OF that this] show ?thesis
    by (simp add: savedJob_findUnique_userId_jobId_def find_None_iff)
qed

lemma save_remove_check:
  assumes "auth_role u = JOB_SEEKER"
  shows "fst (GET_saved_jobs_check u jid
            (snd (DELETE_saved_jobs u jid (snd (POST_saved_jobs u jid newId now s)))))
         = Ok 200 False"
  using assms savedJob_absent_after_remove [OF assms, of jid "snd (POST_saved_jobs u jid newId now s)"]
  by (simp add: GET_saved_jobs_check_def requireRole_def GET_saved_jobs_check_handler_def)

text \<open>
  C7. The claim: save, remove, check ends with check answering false, and a second save
  in a row fails with Conflict and creates no second row. The handler answers the
  duplicate with status 400, which is BadRequest in the taxonomy, not Conflict (409). As
  amended: save, remove, check ends with check answering false; a second save in a row
  fails with 400 (BadRequest) \<open>Job already saved\<close> and leaves the store with the one
  row for the user and the job.
\<close>

theorem C7_save_remove_check:
  assumes "auth_role u = JOB_SEEKER"
  shows
  "fst (GET_saved_jobs_check u jid
          (snd (DELETE_saved_jobs u jid (snd (POST_saved_jobs u jid id1 t1 s))))) = Ok 200 False
   \<and> (user_exists (auth_userId u) s \<and> job_findUnique jid s = Some j
        \<and> savedJob_findUnique_userId_jobId (auth_userId u) jid s = None
        \<and> find (\<lambda>x. saved_id x = id1) (savedJobs s) = None \<longrightarrow>
       (\<exists>x s1.
          POST_saved_jobs u jid id1 t1 s = (Ok 200 ''Job saved'', s1)
        \<and> savedJobs s1 = savedJobs s @ [x]
        \<and> savedJobs_of (auth_userId u) jid s1 = [x]
        \<and> POST_saved_jobs u jid id2 t2 s1 = (Err 400 ''Job already saved'', s1)
        \<and> error_class_of 400 = Some BadRequest
        \<and> DELETE_saved_jobs u jid s1 = (Ok 200 ''Job removed from saved'', s)
        \<and> GET_saved_jobs_check u jid s = (Ok 200 False, s)))"
proof -
  let ?x = "\<lparr> saved_id = id1, saved_userId = auth_userId u, saved_jobId = jid,
              saved_createdAt = t1 \<rparr>"
  let ?s1 = "s\<lparr> savedJobs := savedJobs s @ [?x] \<rparr>"
  have specific: "\<exists>x s1.
          POST_saved_jobs u jid id1 t1 s = (Ok 200 ''Job saved'', s1)
        \<and> savedJobs s1 = savedJobs s @ [x]
        \<and> savedJobs_of (auth_userId u) jid s1 = [x]
        \<and> POST_saved_jobs u jid id2 t2 s1 = (Err 400 ''Job already saved'', s1)
        \<and> error_class_of 400 = Some BadRequest
        \<and> DELETE_saved_jobs u jid s1 = (Ok 200 ''Job removed from saved'', s)
        \<and> GET_saved_jobs_check u jid s = (Ok 200 False, s)"
    if ex: "user_exists (auth_userId u) s" and jb: "job_findUnique jid s = Some j"
      and none: "savedJob_findUnique_userId_jobId (auth_userId u) jid s = None"
      and fresh: "find (\<lambda>x. saved_id x = id1) (savedJobs s) = None"
  proof -
    have first: "POST_saved_jobs u jid id1 t1 s = (Ok 200 ''Job saved'', ?s1)"
      using POST_saved_jobs_first [OF assms fresh none ex jb] .
    have nil: "filter (\<lambda>x. saved_userId x = auth_userId u \<and> saved_jobId x = jid) (savedJobs s) = []"
      using none by (simp add: savedJob_findUnique_userId_jobId_def filter_absent_nil)
    have of1: "savedJobs_of (auth_userId u) jid ?s1 = [?x]"
      using nil by (simp add: savedJobs_of_def)
    have jb1: "job_findUnique jid ?s1 = Some j"
      using jb by (simp add: job_findUnique_def)
    have ex1: "savedJob_findUnique_userId_jobId (auth_userId u) jid ?s1 \<noteq> None"
      unfolding savedJob_findUnique_userId_jobId_def by (simp add: find_snoc_Some)
    have second: "POST_saved_jobs u jid id2 t2 ?s1 = (Err 400 ''Job already saved'', ?s1)"
      using POST_saved_jobs_again [OF assms jb1 ex1] .
    have restored: "?s1\<lparr> savedJobs :=
        filter (\<lambda>x. \<not> (saved_userId x = auth_userId u \<and> saved_jobId x = jid)) (savedJobs ?s1) \<rparr> = s"
    proof -
      have "filter (\<lambda>x. \<not> (saved_userId x = auth_userId u \<and> saved_jobId x = jid)) (savedJobs s)
              = savedJobs s"
        using none unfolding savedJob_findUnique_userId_jobId_def by (rule filter_not_absent)
      then show ?thesis
        by simp
    qed
    have remove: "DELETE_saved_jobs u jid ?s1 = (Ok 200 ''Job removed from saved'', s)"
      using DELETE_saved_jobs_present [OF assms ex1] restored by simp
    have check: "GET_saved_jobs_check u jid s = (Ok 200 False, s)"
      using assms none
      by (simp add: GET_saved_jobs_check_def requireRole_def GET_saved_jobs_check_handler_def)
    from first of1 second remove check show ?thesis
      by (intro exI [of _ ?x] exI [of _ ?s1]) simp
  qed
  with save_remove_check [OF assms] show ?thesis
    by blast
qed

theorem C7_duplicate_save_is_bad_request_counterexample:
  "fst (POST_saved_jobs seeker_auth ''j1'' ''s1'' 50 store0) = Ok 200 ''Job saved''
   \<and> fst (POST_saved_jobs seeker_auth ''j1'' ''s2'' 51
        (snd (POST_saved_jobs seeker_auth ''j1'' ''s1'' 50 store0)))
       = Err 400 ''Job already saved''
   \<and> error_class_of (status (fst (POST_saved_jobs seeker_auth ''j1'' ''s2'' 51
        (snd (POST_saved_jobs seeker_auth ''j1'' ''s1'' 50 store0))))) = Some BadRequest
   \<and> error_class_of (status (fst (POST_saved_jobs seeker_auth ''j1'' ''s2'' 51
        (snd (POST_saved_jobs seeker_auth ''j1'' ''s1'' 50 store0))))) \<noteq> Some Conflict"
  by (simp add: POST_saved_jobs_def requireRole_def POST_saved_jobs_handler_def
      savedJob_create_def savedJob_findUnique_userId_jobId_def job_findUnique_def
      user_exists_def user_findUnique_def Let_def seeker_auth_def portal_defs)

theorem C7_save_remove_check_witness:
  "auth_role seeker_auth = JOB_SEEKER
   \<and> user_exists (auth_userId seeker_auth) store0
   \<and> job_findUnique ''j1'' store0 = Some job1
   \<and> savedJob_findUnique_userId_jobId (auth_userId seeker_auth) ''j1'' store0 = None
   \<and> fst (POST_saved_jobs seeker_auth ''j1'' ''s1'' 50 store0) = Ok 200 ''Job saved''
   \<and> GET_saved_jobs_check seeker_auth ''j1'' store0 = (Ok 200 False, store0)
   \<and> fst (GET_saved_jobs_check seeker_auth ''j1''
          (snd (DELETE_saved_jobs seeker_auth ''j1''
             (snd (POST_saved_jobs seeker_auth ''j1'' ''s1'' 50 store0))))) = Ok 200 False"
proof -
  have h1: "auth_role seeker_auth = JOB_SEEKER"
    by (simp add: seeker_auth_def)
  have h2: "user_exists (auth_userId seeker_auth) store0"
    by (simp add: seeker_auth_def user_exists_def user_findUnique_def portal_defs)
  have h3: "job_findUnique ''j1'' store0 = Some job1"
    by (simp add: job_findUnique_def portal_defs)
  have h4: "savedJob_findUnique_userId_jobId (auth_userId seeker_auth) ''j1'' store0 = None"
    by (simp add: savedJob_findUnique_userId_jobId_def portal_defs)
  have h5: "find (\<lambda>x. saved_id x = ''s1'') (savedJobs store0) = None"
    by (simp add: portal_defs)
  from C7_save_remove_check [OF h1, of "''j1''" "''s1''" 50 store0 job1 "''s2''" 51] h1 h2 h3 h4 h5
  show ?thesis
    by auto
qed

section \<open>Reading and creating a profile\<close>

lemma profile_create_ok:
  assumes "user_exists uid s" and "profile_findUnique_userId uid s = None"
    and "profile_findUnique newId s = None"
  shows "profile_create newId uid name s
         = Some (\<lparr> profile_id = newId, profile_userId = uid, profile_name = name,
                   profile_headline = None, profile_location = None, profile_phone = None,
                   profile_about = None, profile_skills = [], profile_resume = None,
                   profile_resumeName = None, profile_avatar = None \<rparr>,
                 s\<lparr> profiles := profiles s @
                   [\<lparr> profile_id = newId, profile_userId = uid, profile_name = name,
                      profile_headline = None, profile_location = None, profile_phone = None,
                      profile_about = None, profile_skills = [], profile_resume = None,
                      profile_resumeName = None, profile_avatar = None \<rparr>] \<rparr>)"
  using assms by (simp add: profile_create_def Let_def)

lemma GET_profile_existing:
  assumes "profile_findUnique_userId (auth_userId u) s = Some p"
  shows "GET_profile u newId s = (Ok 200 (profile_include_ordered p s), s)"
  using assms by (simp add: GET_profile_def)

lemma GET_profile_repeat_existing:
  assumes "profile_findUnique_userId (auth_userId u) s = Some p"
  shows "GET_profile_repeat u ids s = s"
  using assms by (induction ids) (simp_all add: GET_profile_existing)

text \<open>
  C8. For an authenticated user whose user row exists and who has no profile:
  \<open>GET /profile\<close> creates a profile for the user; a second request returns that same
  profile and creates nothing, so after any number of requests the user has exactly one
  profile; the public \<open>GET /profile/:userId\<close> for a user without a profile answers 404
  and creates nothing.
\<close>

theorem C8_profile_is_created_once:
  assumes "user_findUnique (auth_userId u) s = Some usr"
    and "profile_findUnique_userId (auth_userId u) s = None"
    and "profile_findUnique newId s = None"
  shows
  "\<exists>p v1 s1.
      GET_profile u newId s = (Ok 200 v1, s1) \<and> fst v1 = p
    \<and> profile_id p = newId \<and> profile_userId p = auth_userId u
    \<and> profile_name p = Some (user_name usr)
    \<and> profiles s1 = profiles s @ [p]
    \<and> (\<exists>v2. GET_profile u newId2 s1 = (Ok 200 v2, s1) \<and> fst v2 = p)
    \<and> profiles_of (auth_userId u) (GET_profile_repeat u (newId # ids) s) = [p]
    \<and> GET_profile_userId (auth_userId u) s = (Err 404 ''Profile not found'', s)"
proof -
  let ?p = "\<lparr> profile_id = newId, profile_userId = auth_userId u,
              profile_name = Some (user_name usr),
              profile_headline = None, profile_location = None, profile_phone = None,
              profile_about = None, profile_skills = [], profile_resume = None,
              profile_resumeName = None, profile_avatar = None \<rparr>"
  let ?s1 = "s\<lparr> profiles := profiles s @ [?p] \<rparr>"
  have ex: "user_exists (auth_userId u) s"
    using assms(1) by (simp add: user_exists_def)
  have first: "GET_profile u newId s = (Ok 200 (profile_include ?p ?s1), ?s1)"
    using assms profile_create_ok [OF ex assms(2) assms(3), of "Some (user_name usr)"]
    by (simp add: GET_profile_def)
  have found: "profile_findUnique_userId (auth_userId u) ?s1 = Some ?p"
    using assms(2) by (simp add: profile_findUnique_userId_def find_snoc_absent)
  have second: "GET_profile u newId2 ?s1 = (Ok 200 (profile_include_ordered ?p ?s1), ?s1)"
    using GET_profile_existing [OF found] .
  have rep: "GET_profile_repeat u (newId # ids) s = ?s1"
    using first GET_profile_repeat_existing [OF found] by simp
  have nil: "filter (\<lambda>p. profile_userId p = auth_userId u) (profiles s) = []"
    using assms(2) by (simp add: profile_findUnique_userId_def filter_absent_nil)
  have one: "profiles_of (auth_userId u) ?s1 = [?p]"
    using nil by (simp add: profiles_of_def)
  have pub: "GET_profile_userId (auth_userId u) s = (Err 404 ''Profile not found'', s)"
    using assms(2) by (simp add: GET_profile_userId_def)
  have v1: "fst (profile_include ?p ?s1) = ?p" "fst (profile_include_ordered ?p ?s1) = ?p"
    by (simp_all add: profile_include_def profile_include_ordered_def)
  from first second rep one pub v1 show ?thesis
    by (intro exI [of _ ?p] exI [of _ "profile_include ?p ?s1"] exI [of _ ?s1]) simp
qed

theorem C8_profile_is_created_once_witness:
  "user_findUnique (auth_userId seeker_auth) store0 = Some seeker1
   \<and> profile_findUnique_userId (auth_userId seeker_auth) store0 = None
   \<and> GET_profile seeker_auth ''p1'' store0
       = (Ok 200 (sam_profile, [], [], Some (''sam@mail.test'', ''Sam'')),
          store0\<lparr> profiles := [sam_profile] \<rparr>)
   \<and> GET_profile seeker_auth ''p2'' (store0\<lparr> profiles := [sam_profile] \<rparr>)
       = (Ok 200 (sam_profile, [], [], Some (''sam@mail.test'', ''Sam'')),
          store0\<lparr> profiles := [sam_profile] \<rparr>)
   \<and> profiles_of ''u1'' (GET_profile_repeat seeker_auth [''p1'', ''p2'', ''p3''] store0)
       = [sam_profile]
   \<and> GET_profile_userId ''u1'' store0 = (Err 404 ''Profile not found'', store0)"
proof -
  have h1: "user_findUnique (auth_userId seeker_auth) store0 = Some seeker1"
    by (simp add: user_findUnique_def seeker_auth_def portal_defs)
  have h2: "profile_findUnique_userId (auth_userId seeker_auth) store0 = None"
    by (simp add: profile_findUnique_userId_def portal_defs)
  have h3: "profile_findUnique ''p1'' store0 = None"
    by (simp add: profile_findUnique_def portal_defs)
  have e1: "GET_profile seeker_auth ''p1'' store0
       = (Ok 200 (sam_profile, [], [], Some (''sam@mail.test'', ''Sam'')),
          store0\<lparr> profiles := [sam_profile] \<rparr>)"
    by (simp add: GET_profile_def profile_findUnique_userId_def profile_findUnique_def
        user_findUnique_def user_exists_def profile_create_def profile_include_def
        user_contact_def Let_def seeker_auth_def sam_profile_def portal_defs)
  have e2: "GET_profile seeker_auth ''p2'' (store0\<lparr> profiles := [sam_profile] \<rparr>)
       = (Ok 200 (sam_profile, [], [], Some (''sam@mail.test'', ''Sam'')),
          store0\<lparr> profiles := [sam_profile] \<rparr>)"
    by (simp add: GET_profile_def profile_findUnique_userId_def profile_include_ordered_def
        orderByDesc_def user_findUnique_def user_contact_def seeker_auth_def
        sam_profile_def portal_defs)
  from C8_profile_is_created_once [OF h1 h2 h3, of "''p2''" "[''p2'', ''p3'']"]
  obtain p v1 s1 where
    r: "GET_profile seeker_auth ''p1'' store0 = (Ok 200 v1, s1)" "fst v1 = p"
      "profiles_of (auth_userId seeker_auth)
         (GET_profile_repeat seeker_auth [''p1'', ''p2'', ''p3''] store0) = [p]"
      "GET_profile_userId (auth_userId seeker_auth) store0
         = (Err 404 ''Profile not found'', store0)"
    by blast
  from r(1,2) e1 have "p = sam_profile"
    by auto
  with r e1 e2 h1 h2 show ?thesis
    by (simp add: seeker_auth_def)
qed

section \<open>Experiences of a profile\<close>

lemma experience_create_current:
  assumes "experience_create newId pid title company location startDate JNull
             (js_or current (JBool False)) description s = Some (e, s')"
    and "truthy current"
  shows "exp_endDate e = None \<and> exp_current e \<and> experiences s' = experiences s @ [e]"
  using assms
  by (cases current)
     (auto simp add: experience_create_def js_or_def Let_def split: option.splits if_splits)

lemma experience_update_current:
  assumes "experience_update i title company location startDate JNull
             (js_or current (JBool False)) description s = Some (e, s')"
    and "truthy current"
  shows "exp_endDate e = None \<and> exp_current e \<and> experience_findUnique i s' = Some e"
proof -
  from assms obtain old where old: "experience_findUnique i s = Some old"
    by (auto simp add: experience_update_def split: option.splits)
  from assms old have e: "exp_endDate e = None" "exp_current e" "exp_id e = i"
    and s': "experiences s' = map (\<lambda>x. if exp_id x = i then e else x) (experiences s)"
    by (cases current;
        auto simp add: experience_update_def js_or_def Let_def upd_opt_string_def
          upd_req_bool_def split: option.splits if_splits)+
  from old e(3) s' have "experience_findUnique i s' = Some e"
    by (simp add: experience_findUnique_def find_map_replace)
  with e show ?thesis
    by simp
qed

text \<open>
  C9. Every experience row that the add or the update operation produces from a request
  whose \<open>current\<close> flag is truthy is stored with a null end date, whatever end date
  the request supplied.
\<close>

theorem C9_current_experience_has_no_end_date:
  assumes "truthy (field body ''current'')"
  shows
  "(POST_profile_experience u body newProfileId newId s = (Ok c (m, e), s') \<longrightarrow>
      exp_endDate e = None \<and> exp_current e \<and> e \<in> set (experiences s'))
   \<and> (PUT_profile_experience u i body s = (Ok c (m, e), s') \<longrightarrow>
      exp_endDate e = None \<and> exp_current e \<and> experience_findUnique i s' = Some e)"
proof -
  have post: "exp_endDate e = None \<and> exp_current e \<and> e \<in> set (experiences s')"
    if "POST_profile_experience u body newProfileId newId s = (Ok c (m, e), s')"
  proof -
    from that assms have
      "\<exists>pid s1. experience_create newId pid (field body ''title'') (field body ''company'')
         (field body ''location'') (field body ''startDate'') JNull
         (js_or (field body ''current'') (JBool False)) (field body ''description'') s1
       = Some (e, s')"
      by (auto simp add: POST_profile_experience_def Let_def server_error_def
          split: option.splits if_splits; blast)
    then obtain pid s1 where
      "experience_create newId pid (field body ''title'') (field body ''company'')
         (field body ''location'') (field body ''startDate'') JNull
         (js_or (field body ''current'') (JBool False)) (field body ''description'') s1
       = Some (e, s')"
      by blast
    from experience_create_current [OF this assms] show ?thesis
      by simp
  qed
  have put: "exp_endDate e = None \<and> exp_current e \<and> experience_findUnique i s' = Some e"
    if "PUT_profile_experience u i body s = (Ok c (m, e), s')"
  proof -
    from that assms have
      "experience_update i (field body ''title'') (field body ''company'')
         (field body ''location'') (field body ''startDate'') JNull
         (js_or (field body ''current'') (JBool False)) (field body ''description'') s
       = Some (e, s')"
      by (auto simp add: PUT_profile_experience_def Let_def server_error_def
          split: option.splits if_splits)
    from experience_update_current [OF this assms] show ?thesis .
  qed
  from post put show ?thesis
    by blast
qed

theorem C9_current_experience_has_no_end_date_witness:
  "truthy (field current_body ''current'')
   \<and> field current_body ''endDate'' = JStr ''2024-12-31T00:00:00Z''
   \<and> (\<exists>e s'. POST_profile_experience seeker_auth current_body ''p9'' ''e2'' store2
         = (Ok 201 (''Experience added'', e), s')
       \<and> exp_endDate e = None \<and> exp_current e \<and> e \<in> set (experiences s'))
   \<and> (\<exists>e s'. PUT_profile_experience seeker_auth ''e1'' current_body store2
         = (Ok 200 (''Experience updated'', e), s')
       \<and> exp_endDate e = None \<and> exp_current e \<and> experience_findUnique ''e1'' s' = Some e)"
proof -
  have h: "truthy (field current_body ''current'')"
    by (simp add: field_def current_body_def)
  have d: "field current_body ''endDate'' = JStr ''2024-12-31T00:00:00Z''"
    by (simp add: field_def current_body_def)
  have "\<exists>e s'. POST_profile_experience seeker_auth current_body ''p9'' ''e2'' store2
         = (Ok 201 (''Experience added'', e), s')"
    by (simp add: POST_profile_experience_def profile_findUnique_userId_def
        profile_findUnique_def experience_create_def experience_findUnique_def js_or_def
        field_def Let_def current_body_def seeker_auth_def store2_def sam_profile_def
        sam_experience_def sam_education_def portal_defs)
  then obtain e1 s1 where p: "POST_profile_experience seeker_auth current_body ''p9'' ''e2'' store2
         = (Ok 201 (''Experience added'', e1), s1)"
    by blast
  have "\<exists>e s'. PUT_profile_experience seeker_auth ''e1'' current_body store2
         = (Ok 200 (''Experience updated'', e), s')"
    by (simp add: PUT_profile_experience_def profile_findUnique_def
        experience_update_def experience_findUnique_def js_or_def upd_req_string_def
        upd_opt_string_def upd_req_bool_def
        field_def Let_def current_body_def seeker_auth_def store2_def sam_profile_def
        sam_experience_def sam_education_def portal_defs)
  then obtain e2 s2 where q: "PUT_profile_experience seeker_auth ''e1'' current_body store2
         = (Ok 200 (''Experience updated'', e2), s2)"
    by blast
  from C9_current_experience_has_no_end_date [OF h, of seeker_auth "''p9''" "''e2''" store2
      201 "''Experience added''" e1 s1 "''e1''"] p
  have a: "exp_endDate e1 = None \<and> exp_current e1 \<and> e1 \<in> set (experiences s1)"
    by blast
  from C9_current_experience_has_no_end_date [OF h, of seeker_auth "''p9''" "''e2''" store2
      200 "''Experience updated''" e2 s2 "''e1''"] q
  have b: "exp_endDate e2 = None \<and> exp_current e2 \<and> experience_findUnique ''e1'' s2 = Some e2"
    by blast
  from h d p q a b show ?thesis
    by blast
qed

section \<open>Updating and deleting an entry that is not there\<close>

text \<open>
  C10. An update or delete of an experience or education whose id is not in the store
  fails with 403 (Forbidden), not 404, and leaves the store unchanged; the reply is the
  one given for a row that belongs to another user.
\<close>

theorem C10_missing_target_is_forbidden:
  "(experience_findUnique i s = None \<longrightarrow>
      PUT_profile_experience u i body s = (Err 403 ''Not authorized'', s)
      \<and> DELETE_profile_experience u i s = (Err 403 ''Not authorized'', s))
   \<and> (education_findUnique i s = None \<longrightarrow>
      PUT_profile_education u i body s = (Err 403 ''Not authorized'', s)
      \<and> DELETE_profile_education u i s = (Err 403 ''Not authorized'', s))
   \<and> (experience_findUnique i s = Some x \<and> profile_findUnique (exp_profileId x) s = Some p
        \<and> profile_userId p \<noteq> auth_userId u \<longrightarrow>
      PUT_profile_experience u i body s = (Err 403 ''Not authorized'', s)
      \<and> DELETE_profile_experience u i s = (Err 403 ''Not authorized'', s))
   \<and> (education_findUnique i s = Some d \<and> profile_findUnique (edu_profileId d) s = Some p
        \<and> profile_userId p \<noteq> auth_userId u \<longrightarrow>
      PUT_profile_education u i body s = (Err 403 ''Not authorized'', s)
      \<and> DELETE_profile_education u i s = (Err 403 ''Not authorized'', s))
   \<and> error_class_of 403 = Some Forbidden"
  by (simp add: PUT_profile_experience_def DELETE_profile_experience_def
      PUT_profile_education_def DELETE_profile_education_def Let_def)

theorem C10_missing_target_is_forbidden_witness:
  "experience_findUnique ''e404'' store2 = None \<and> education_findUnique ''e404'' store2 = None
   \<and> PUT_profile_experience seeker_auth ''e404'' current_body store2
       = (Err 403 ''Not authorized'', store2)
   \<and> DELETE_profile_experience seeker_auth ''e404'' store2 = (Err 403 ''Not authorized'', store2)
   \<and> PUT_profile_education seeker_auth ''e404'' [] store2 = (Err 403 ''Not authorized'', store2)
   \<and> DELETE_profile_education seeker_auth ''e404'' store2 = (Err 403 ''Not authorized'', store2)
   \<and> experience_findUnique ''e1'' store2 = Some sam_experience
   \<and> DELETE_profile_experience \<lparr> auth_userId = ''r1'', auth_role = RECRUITER \<rparr> ''e1'' store2
       = (Err 403 ''Not authorized'', store2)
   \<and> fst (DELETE_profile_experience seeker_auth ''e1'' store2) = Ok 200 ''Experience deleted''"
proof -
  have h1: "experience_findUnique ''e404'' store2 = None"
    by (simp add: experience_findUnique_def store2_def sam_experience_def)
  have h2: "education_findUnique ''e404'' store2 = None"
    by (simp add: education_findUnique_def store2_def sam_education_def)
  have h3: "experience_findUnique ''e1'' store2 = Some sam_experience"
    by (simp add: experience_findUnique_def store2_def sam_experience_def)
  have h4: "profile_findUnique (exp_profileId sam_experience) store2 = Some sam_profile"
    by (simp add: profile_findUnique_def store2_def sam_experience_def sam_profile_def)
  have h5: "profile_userId sam_profile \<noteq> auth_userId \<lparr> auth_userId = ''r1'', auth_role = RECRUITER \<rparr>"
    by (simp add: sam_profile_def)
  have own: "fst (DELETE_profile_experience seeker_auth ''e1'' store2) = Ok 200 ''Experience deleted''"
    by (simp add: DELETE_profile_experience_def experience_findUnique_def profile_findUnique_def
        experience_delete_def store2_def sam_experience_def sam_profile_def seeker_auth_def)
  from C10_missing_target_is_forbidden [of "''e404''" store2 seeker_auth current_body
      sam_experience sam_profile sam_education]
    C10_missing_target_is_forbidden [of "''e404''" store2 seeker_auth "[]"
      sam_experience sam_profile sam_education]
    C10_missing_target_is_forbidden [of "''e1''" store2
      "\<lparr> auth_userId = ''r1'', auth_role = RECRUITER \<rparr>" "[]"
      sam_experience sam_profile sam_education]
    h1 h2 h3 h4 h5 own
  show ?thesis
    by simp
qed

section \<open>Deleting a user and everything that refers to it\<close>

lemma delete_job_relations_applications:
  "applications (delete_job_relations js s)
     = filter (\<lambda>a. app_jobId a \<notin> set (map job_id js)) (applications s)"
  by (induction js arbitrary: s)
     (auto simp add: application_deleteMany_jobId_def savedJob_deleteMany_jobId_def
        intro: filter_cong)

lemma delete_job_relations_savedJobs:
  "savedJobs (delete_job_relations js s)
     = filter (\<lambda>x. saved_jobId x \<notin> set (map job_id js)) (savedJobs s)"
  by (induction js arbitrary: s)
     (auto simp add: application_deleteMany_jobId_def savedJob_deleteMany_jobId_def
        intro: filter_cong)

lemma delete_job_relations_others:
  "jobs (delete_job_relations js s) = jobs s"
  "users (delete_job_relations js s) = users s"
  "profiles (delete_job_relations js s) = profiles s"
  "experiences (delete_job_relations js s) = experiences s"
  "educations (delete_job_relations js s) = educations s"
  "store.more (delete_job_relations js s) = store.more s"
  by (induction js arbitrary: s;
      simp add: application_deleteMany_jobId_def savedJob_deleteMany_jobId_def)+

lemma relations_deleted_applications:
  "a \<in> set (applications (relations_deleted i s)) \<Longrightarrow>
     a \<in> set (applications s) \<and> app_userId a \<noteq> i
     \<and> (\<forall>j \<in> set (jobs s). job_recruiterId j = i \<longrightarrow> app_jobId a \<noteq> job_id j)"
  by (auto simp add: relations_deleted_def delete_job_relations_applications
      job_findMany_recruiter_def savedJob_deleteMany_userId_def
      application_deleteMany_userId_def)

lemma relations_deleted_savedJobs:
  "x \<in> set (savedJobs (relations_deleted i s)) \<Longrightarrow>
     x \<in> set (savedJobs s) \<and> saved_userId x \<noteq> i
     \<and> (\<forall>j \<in> set (jobs s). job_recruiterId j = i \<longrightarrow> saved_jobId x \<noteq> job_id j)"
  by (auto simp add: relations_deleted_def delete_job_relations_savedJobs
      job_findMany_recruiter_def savedJob_deleteMany_userId_def
      application_deleteMany_userId_def)

lemma relations_deleted_others:
  "jobs (relations_deleted i s) = jobs s"
  "users (relations_deleted i s) = users s"
  "profiles (relations_deleted i s) = profiles s"
  "experiences (relations_deleted i s) = experiences s"
  "educations (relations_deleted i s) = educations s"
  by (simp_all add: relations_deleted_def delete_job_relations_others
      savedJob_deleteMany_userId_def application_deleteMany_userId_def)

lemma job_deleteMany_recruiter_after_relations:
  "job_deleteMany_recruiter i (relations_deleted i s)
     = Some ((relations_deleted i s)\<lparr> jobs := filter (\<lambda>j. job_recruiterId j \<noteq> i) (jobs s) \<rparr>)"
proof -
  have "\<not> list_ex (\<lambda>j. job_referenced (job_id j) (relations_deleted i s))
          (job_findMany_recruiter i (relations_deleted i s))"
    using relations_deleted_applications [of _ i s] relations_deleted_savedJobs [of _ i s]
    by (auto simp add: list_ex_iff job_referenced_def job_findMany_recruiter_def
        relations_deleted_others)
  then show ?thesis
    by (simp add: job_deleteMany_recruiter_def relations_deleted_others)
qed

lemma DELETE_admin_users_handler_eq:
  "DELETE_admin_users_handler sch i s =
     (case user_delete sch i
             ((relations_deleted i s)\<lparr> jobs := filter (\<lambda>j. job_recruiterId j \<noteq> i) (jobs s) \<rparr>) of
        None \<Rightarrow> (server_error,
                 (relations_deleted i s)\<lparr> jobs := filter (\<lambda>j. job_recruiterId j \<noteq> i) (jobs s) \<rparr>)
      | Some s5 \<Rightarrow> (Ok 200 ''User deleted'', s5))"
proof -
  have "DELETE_admin_users_handler sch i s =
     (case job_deleteMany_recruiter i (relations_deleted i s) of
        None \<Rightarrow> (server_error, relations_deleted i s)
      | Some s4 \<Rightarrow>
          (case user_delete sch i s4 of
             None \<Rightarrow> (server_error, s4)
           | Some s5 \<Rightarrow> (Ok 200 ''User deleted'', s5)))"
    unfolding DELETE_admin_users_handler_def Let_def relations_deleted_def
    by (rule refl)
  then show ?thesis
    by (simp add: job_deleteMany_recruiter_after_relations)
qed

lemma profile_delete_for_user_result:
  assumes "profile_delete_for_user sch i s = Some s'"
  shows "applications s' = applications s \<and> savedJobs s' = savedJobs s \<and> jobs s' = jobs s
         \<and> users s' = users s \<and> \<not> list_ex (\<lambda>p. profile_userId p = i) (profiles s')"
  using assms
  by (auto simp add: profile_delete_for_user_def Let_def list_ex_iff filter_empty_conv
      split: if_splits)

lemma user_delete_result:
  assumes "user_delete sch i s = Some s'"
  shows "applications s' = applications s \<and> savedJobs s' = savedJobs s \<and> jobs s' = jobs s
         \<and> \<not> list_ex (\<lambda>p. profile_userId p = i) (profiles s')
         \<and> user_findUnique i s' = None"
proof -
  from assms obtain s'' where p: "profile_delete_for_user sch i s = Some s''"
    and s': "s' = s''\<lparr> users := filter (\<lambda>u. user_id u \<noteq> i) (users s'') \<rparr>"
    by (auto simp add: user_delete_def split: if_splits option.splits)
  from profile_delete_for_user_result [OF p] s' show ?thesis
    by (simp add: user_findUnique_def find_None_iff)
qed

text \<open>The store after the handler's own deletions, and what \<open>prisma.user.delete\<close> then
  does with it.\<close>

lemma relations_deleted_eq:
  "relations_deleted i s =
     s\<lparr> applications :=
          filter (\<lambda>a. app_userId a \<noteq> i
                   \<and> app_jobId a \<notin> set (map job_id (filter (\<lambda>j. job_recruiterId j = i) (jobs s))))
            (applications s),
        savedJobs :=
          filter (\<lambda>x. saved_userId x \<noteq> i
                   \<and> saved_jobId x \<notin> set (map job_id (filter (\<lambda>j. job_recruiterId j = i) (jobs s))))
            (savedJobs s) \<rparr>"
  by (rule store.equality)
     (simp_all add: relations_deleted_def delete_job_relations_applications
        delete_job_relations_savedJobs delete_job_relations_others job_findMany_recruiter_def
        savedJob_deleteMany_userId_def application_deleteMany_userId_def)

lemma user_not_referenced_after_deletions:
  "\<not> user_referenced i
       ((relations_deleted i s)\<lparr> jobs := filter (\<lambda>j. job_recruiterId j \<noteq> i) (jobs s) \<rparr>)"
  using relations_deleted_applications [of _ i s] relations_deleted_savedJobs [of _ i s]
  by (auto simp add: user_referenced_def list_ex_iff)

lemma filter_none_keeps_all: "filter P xs = [] \<Longrightarrow> filter (\<lambda>x. \<not> P x) xs = xs"
  by (induction xs) (auto split: if_splits)

lemma profile_delete_for_user_none:
  assumes "profile_findUnique_userId i s = None"
  shows "profile_delete_for_user sch i s = Some s"
  using assms
  by (simp add: profile_delete_for_user_def profile_findUnique_userId_def filter_absent_nil)

lemma profile_delete_for_user_cascade:
  assumes "profile_user_onDelete sch = Cascade"
    and "experience_profile_onDelete sch = Cascade"
    and "education_profile_onDelete sch = Cascade"
  shows "profile_delete_for_user sch i s =
     Some (s\<lparr> experiences :=
                filter (\<lambda>e. exp_profileId e
                           \<notin> set (map profile_id (filter (\<lambda>p. profile_userId p = i) (profiles s))))
                  (experiences s),
              educations :=
                filter (\<lambda>e. edu_profileId e
                           \<notin> set (map profile_id (filter (\<lambda>p. profile_userId p = i) (profiles s))))
                  (educations s),
              profiles := filter (\<lambda>p. profile_userId p \<noteq> i) (profiles s) \<rparr>)"
proof (cases "filter (\<lambda>p. profile_userId p = i) (profiles s) = []")
  case True
  then have "filter (\<lambda>p. profile_userId p \<noteq> i) (profiles s) = profiles s"
    by (rule filter_none_keeps_all)
  with True show ?thesis
    by (simp add: profile_delete_for_user_def)
next
  case False
  with assms show ?thesis
    by (simp add: profile_delete_for_user_def Let_def)
qed

lemma DELETE_admin_users_no_profile:
  assumes "auth_role adm = ADMIN" and "user_findUnique i s \<noteq> None"
    and "profile_findUnique_userId i s = None"
  shows "DELETE_admin_users sch adm i s =
     (Ok 200 ''User deleted'',
      s\<lparr> users := filter (\<lambda>u. user_id u \<noteq> i) (users s),
          jobs := filter (\<lambda>j. job_recruiterId j \<noteq> i) (jobs s),
          applications :=
            filter (\<lambda>a. app_userId a \<noteq> i
                     \<and> app_jobId a \<notin> set (map job_id (filter (\<lambda>j. job_recruiterId j = i) (jobs s))))
              (applications s),
          savedJobs :=
            filter (\<lambda>x. saved_userId x \<noteq> i
                     \<and> saved_jobId x \<notin> set (map job_id (filter (\<lambda>j. job_recruiterId j = i) (jobs s))))
              (savedJobs s) \<rparr>)"
proof -
  let ?s4 = "(relations_deleted i s)\<lparr> jobs := filter (\<lambda>j. job_recruiterId j \<noteq> i) (jobs s) \<rparr>"
  have u: "user_findUnique i ?s4 \<noteq> None"
    using assms(2) by (simp add: user_findUnique_def relations_deleted_others)
  have p: "profile_findUnique_userId i ?s4 = None"
    using assms(3) by (simp add: profile_findUnique_userId_def relations_deleted_others)
  have "user_delete sch i ?s4 = Some (?s4\<lparr> users := filter (\<lambda>u. user_id u \<noteq> i) (users ?s4) \<rparr>)"
    using u user_not_referenced_after_deletions [of i s] profile_delete_for_user_none [OF p]
    by (simp add: user_delete_def)
  then have "DELETE_admin_users_handler sch i s
      = (Ok 200 ''User deleted'', ?s4\<lparr> users := filter (\<lambda>u. user_id u \<noteq> i) (users ?s4) \<rparr>)"
    by (simp add: DELETE_admin_users_handler_eq)
  with assms(1) show ?thesis
    by (simp add: DELETE_admin_users_def requireRole_def relations_deleted_eq)
qed

lemma DELETE_admin_users_cascade:
  assumes "auth_role adm = ADMIN" and "user_findUnique i s \<noteq> None"
    and "profile_user_onDelete sch = Cascade"
    and "experience_profile_onDelete sch = Cascade"
    and "education_profile_onDelete sch = Cascade"
  shows "DELETE_admin_users sch adm i s =
     (Ok 200 ''User deleted'',
      s\<lparr> users := filter (\<lambda>u. user_id u \<noteq> i) (users s),
          profiles := filter (\<lambda>p. profile_userId p \<noteq> i) (profiles s),
          experiences :=
            filter (\<lambda>e. exp_profileId e
                       \<notin> set (map profile_id (filter (\<lambda>p. profile_userId p = i) (profiles s))))
              (experiences s),
          educations :=
            filter (\<lambda>e. edu_profileId e
                       \<notin> set (map profile_id (filter (\<lambda>p. profile_userId p = i) (profiles s))))
              (educations s),
          jobs := filter (\<lambda>j. job_recruiterId j \<noteq> i) (jobs s),
          applications :=
            filter (\<lambda>a. app_userId a \<noteq> i
                     \<and> app_jobId a \<notin> set (map job_id (filter (\<lambda>j. job_recruiterId j = i) (jobs s))))
              (applications s),
          savedJobs :=
            filter (\<lambda>x. saved_userId x \<noteq> i
                     \<and> saved_jobId x \<notin> set (map job_id (filter (\<lambda>j. job_recruiterId j = i) (jobs s))))
              (savedJobs s) \<rparr>)"
proof -
  let ?s4 = "(relations_deleted i s)\<lparr> jobs := filter (\<lambda>j. job_recruiterId j \<noteq> i) (jobs s) \<rparr>"
  have u: "user_findUnique i ?s4 \<noteq> None"
    using assms(2) by (simp add: user_findUnique_def relations_deleted_others)
  have "user_delete sch i ?s4 =
      Some (?s4\<lparr> experiences :=
                filter (\<lambda>e. exp_profileId e
                           \<notin> set (map profile_id (filter (\<lambda>p. profile_userId p = i) (profiles ?s4))))
                  (experiences ?s4),
              educations :=
                filter (\<lambda>e. edu_profileId e
                           \<notin> set (map profile_id (filter (\<lambda>p. profile_userId p = i) (profiles ?s4))))
                  (educations ?s4),
              profiles := filter (\<lambda>p. profile_userId p \<noteq> i) (profiles ?s4),
              users := filter (\<lambda>u. user_id u \<noteq> i) (users ?s4) \<rparr>)"
    using u user_not_referenced_after_deletions [of i s]
      profile_delete_for_user_cascade [OF assms(3) assms(4) assms(5), of i ?s4]
    by (simp add: user_delete_def)
  then have "DELETE_admin_users_handler sch i s
      = (Ok 200 ''User deleted'',
         ?s4\<lparr> experiences :=
                filter (\<lambda>e. exp_profileId e
                           \<notin> set (map profile_id (filter (\<lambda>p. profile_userId p = i) (profiles ?s4))))
                  (experiences ?s4),
              educations :=
                filter (\<lambda>e. edu_profileId e
                           \<notin> set (map profile_id (filter (\<lambda>p. profile_userId p = i) (profiles ?s4))))
                  (educations ?s4),
              profiles := filter (\<lambda>p. profile_userId p \<noteq> i) (profiles ?s4),
              users := filter (\<lambda>u. user_id u \<noteq> i) (users ?s4) \<rparr>)"
    by (simp add: DELETE_admin_users_handler_eq)
  with assms(1) show ?thesis
    by (simp add: DELETE_admin_users_def requireRole_def relations_deleted_eq)
qed

lemma DELETE_admin_users_no_references:
  assumes "DELETE_admin_users sch adm i s = (Ok 200 ''User deleted'', s')"
  shows
  "user_findUnique i s' = None
   \<and> \<not> list_ex (\<lambda>a. app_userId a = i) (applications s')
   \<and> \<not> list_ex (\<lambda>x. saved_userId x = i) (savedJobs s')
   \<and> \<not> list_ex (\<lambda>j. job_recruiterId j = i) (jobs s')
   \<and> \<not> list_ex (\<lambda>p. profile_userId p = i) (profiles s')
   \<and> (\<forall>j \<in> set (jobs s). job_recruiterId j = i \<longrightarrow>
         \<not> list_ex (\<lambda>a. app_jobId a = job_id j) (applications s')
         \<and> \<not> list_ex (\<lambda>x. saved_jobId x = job_id j) (savedJobs s'))"
proof -
  let ?s4 = "(relations_deleted i s)\<lparr> jobs := filter (\<lambda>j. job_recruiterId j \<noteq> i) (jobs s) \<rparr>"
  from assms have "DELETE_admin_users_handler sch i s = (Ok 200 ''User deleted'', s')"
    by (auto simp add: DELETE_admin_users_def requireRole_def role_denied_def split: if_splits)
  then have "user_delete sch i ?s4 = Some s'"
    by (auto simp add: DELETE_admin_users_handler_eq server_error_def split: option.splits)
  from user_delete_result [OF this]
  have r: "applications s' = applications (relations_deleted i s)"
    "savedJobs s' = savedJobs (relations_deleted i s)"
    "jobs s' = filter (\<lambda>j. job_recruiterId j \<noteq> i) (jobs s)"
    "\<not> list_ex (\<lambda>p. profile_userId p = i) (profiles s')"
    "user_findUnique i s' = None"
    by simp_all
  have a: "\<not> list_ex (\<lambda>a. app_userId a = i) (applications s')"
    using relations_deleted_applications [of _ i s] by (auto simp add: r(1) list_ex_iff)
  have b: "\<not> list_ex (\<lambda>x. saved_userId x = i) (savedJobs s')"
    using relations_deleted_savedJobs [of _ i s] by (auto simp add: r(2) list_ex_iff)
  have c: "\<not> list_ex (\<lambda>j. job_recruiterId j = i) (jobs s')"
    by (simp add: r(3) list_ex_iff)
  have d: "\<forall>j \<in> set (jobs s). job_recruiterId j = i \<longrightarrow>
         \<not> list_ex (\<lambda>a. app_jobId a = job_id j) (applications s')
         \<and> \<not> list_ex (\<lambda>x. saved_jobId x = job_id j) (savedJobs s')"
    using relations_deleted_applications [of _ i s] relations_deleted_savedJobs [of _ i s]
    by (auto simp add: r(1) r(2) list_ex_iff)
  from r(4,5) a b c d show ?thesis
    by blast
qed

text \<open>
  C5. After a successful admin deletion of a user, no application, saved job, job or
  profile row refers to the user, and no application or saved job refers to a job the
  user recruited. The deletion does succeed, with exactly these rows removed, for an
  admin and an existing user who has no profile, or whose profile the schema lets go
  with the user; without the admin role it is refused and nothing is deleted. The
  application, saved-job and job rows are deleted by the handler; the profile row by the
  database, under the referential action of the schema.
\<close>

theorem C5_deleted_user_leaves_no_rows:
  "(DELETE_admin_users sch adm i s = (Ok 200 ''User deleted'', s') \<longrightarrow>
      user_findUnique i s' = None
      \<and> \<not> list_ex (\<lambda>a. app_userId a = i) (applications s')
      \<and> \<not> list_ex (\<lambda>x. saved_userId x = i) (savedJobs s')
      \<and> \<not> list_ex (\<lambda>j. job_recruiterId j = i) (jobs s')
      \<and> \<not> list_ex (\<lambda>p. profile_userId p = i) (profiles s')
      \<and> (\<forall>j \<in> set (jobs s). job_recruiterId j = i \<longrightarrow>
            \<not> list_ex (\<lambda>a. app_jobId a = job_id j) (applications s')
            \<and> \<not> list_ex (\<lambda>x. saved_jobId x = job_id j) (savedJobs s')))
   \<and> (auth_role adm = ADMIN \<and> user_findUnique i s \<noteq> None
        \<and> profile_findUnique_userId i s = None \<longrightarrow>
      DELETE_admin_users sch adm i s =
        (Ok 200 ''User deleted'',
         s\<lparr> users := filter (\<lambda>u. user_id u \<noteq> i) (users s),
             jobs := filter (\<lambda>j. job_recruiterId j \<noteq> i) (jobs s),
             applications :=
               filter (\<lambda>a. app_userId a \<noteq> i
                        \<and> app_jobId a
                            \<notin> set (map job_id (filter (\<lambda>j. job_recruiterId j = i) (jobs s))))
                 (applications s),
             savedJobs :=
               filter (\<lambda>x. saved_userId x \<noteq> i
                        \<and> saved_jobId x
                            \<notin> set (map job_id (filter (\<lambda>j. job_recruiterId j = i) (jobs s))))
                 (savedJobs s) \<rparr>))
   \<and> (auth_role adm = ADMIN \<and> user_findUnique i s \<noteq> None
        \<and> profile_user_onDelete sch = Cascade \<and> experience_profile_onDelete sch = Cascade
        \<and> education_profile_onDelete sch = Cascade \<longrightarrow>
      DELETE_admin_users sch adm i s =
        (Ok 200 ''User deleted'',
         s\<lparr> users := filter (\<lambda>u. user_id u \<noteq> i) (users s),
             profiles := filter (\<lambda>p. profile_userId p \<noteq> i) (profiles s),
             experiences :=
               filter (\<lambda>e. exp_profileId e
                          \<notin> set (map profile_id (filter (\<lambda>p. profile_userId p = i) (profiles s))))
                 (experiences s),
             educations :=
               filter (\<lambda>e. edu_profileId e
                          \<notin> set (map profile_id (filter (\<lambda>p. profile_userId p = i) (profiles s))))
                 (educations s),
             jobs := filter (\<lambda>j. job_recruiterId j \<noteq> i) (jobs s),
             applications :=
               filter (\<lambda>a. app_userId a \<noteq> i
                        \<and> app_jobId a
                            \<notin> set (map job_id (filter (\<lambda>j. job_recruiterId j = i) (jobs s))))
                 (applications s),
             savedJobs :=
               filter (\<lambda>x. saved_userId x \<noteq> i
                        \<and> saved_jobId x
                            \<notin> set (map job_id (filter (\<lambda>j. job_recruiterId j = i) (jobs s))))
                 (savedJobs s) \<rparr>))
   \<and> (auth_role adm \<noteq> ADMIN \<longrightarrow>
      status (fst (DELETE_admin_users sch adm i s)) = 403
      \<and> snd (DELETE_admin_users sch adm i s) = s)"
proof -
  have d: "auth_role adm \<noteq> ADMIN \<longrightarrow>
      status (fst (DELETE_admin_users sch adm i s)) = 403
      \<and> snd (DELETE_admin_users sch adm i s) = s"
    by (simp add: DELETE_admin_users_def requireRole_def role_denied_def)
  from DELETE_admin_users_no_references [of sch adm i s s']
    DELETE_admin_users_no_profile [of adm i s sch]
    DELETE_admin_users_cascade [of adm i s sch] d
  show ?thesis
    by blast
qed

lemmas admin_route_defs = DELETE_admin_users_def requireRole_def DELETE_admin_users_handler_def
  application_deleteMany_userId_def savedJob_deleteMany_userId_def job_findMany_recruiter_def
  application_deleteMany_jobId_def savedJob_deleteMany_jobId_def job_deleteMany_recruiter_def
  job_referenced_def user_delete_def user_referenced_def user_findUnique_def
  profile_delete_for_user_def server_error_def

lemmas store3_defs = store3_def store2_def saved1_def saved2_def app1_def sam_profile_def
  sam_experience_def sam_education_def portal_defs

text \<open>Under \<open>Restrict\<close> a user with a profile cannot be deleted: the handler answers 500
  after its own deletions, which stay.\<close>

lemma DELETE_admin_users_seeker_restrict_example:
  "DELETE_admin_users restrict_schema admin_auth ''u1'' store3
     = (Err 500 ''Server error'', store2)"
  by (simp add: admin_route_defs Let_def restrict_schema_def admin_auth_def store3_defs)

theorem C5_deleted_user_leaves_no_rows_witness:
  "auth_role admin_auth = ADMIN
   \<and> user_findUnique ''r1'' store3 \<noteq> None \<and> profile_findUnique_userId ''r1'' store3 = None
   \<and> applications store3 = [app1] \<and> app_jobId app1 = ''j1''
   \<and> savedJobs store3 = [saved1, saved2] \<and> saved_jobId saved2 = ''j1''
   \<and> job_recruiterId job1 = ''r1''
   \<and> DELETE_admin_users restrict_schema admin_auth ''r1'' store3
     = (Ok 200 ''User deleted'',
        store3\<lparr> users := [recruiter2, seeker1, admin1], jobs := [job2], applications := [],
                 savedJobs := [saved1] \<rparr>)
   \<and> user_findUnique ''u1'' store3 \<noteq> None
   \<and> profiles store3 = [sam_profile] \<and> profile_userId sam_profile = ''u1''
   \<and> DELETE_admin_users cascade_schema admin_auth ''u1'' store3
     = (Ok 200 ''User deleted'', store0\<lparr> users := [recruiter1, recruiter2, admin1] \<rparr>)
   \<and> \<not> list_ex (\<lambda>p. profile_userId p = ''u1'')
        (profiles (store0\<lparr> users := [recruiter1, recruiter2, admin1] \<rparr>))
   \<and> \<not> list_ex (\<lambda>x. saved_jobId x = job_id job1)
        (savedJobs (store3\<lparr> users := [recruiter2, seeker1, admin1], jobs := [job2],
           applications := [], savedJobs := [saved1] \<rparr>))"
proof -
  have a: "auth_role admin_auth = ADMIN"
    by (simp add: admin_auth_def)
  have r: "user_findUnique ''r1'' store3 \<noteq> None" "profile_findUnique_userId ''r1'' store3 = None"
    "user_findUnique ''u1'' store3 \<noteq> None"
    by (simp_all add: user_findUnique_def profile_findUnique_userId_def store3_defs)
  have c: "profile_user_onDelete cascade_schema = Cascade"
    "experience_profile_onDelete cascade_schema = Cascade"
    "education_profile_onDelete cascade_schema = Cascade"
    by (simp_all add: cascade_schema_def)
  have f: "applications store3 = [app1]" "app_jobId app1 = ''j1''"
    "savedJobs store3 = [saved1, saved2]" "saved_jobId saved2 = ''j1''"
    "job_recruiterId job1 = ''r1''" "profiles store3 = [sam_profile]"
    "profile_userId sam_profile = ''u1''" "job_id job1 = ''j1''"
    by (simp_all add: store3_defs)
  have e1: "store3\<lparr> users := filter (\<lambda>u. user_id u \<noteq> ''r1'') (users store3),
             jobs := filter (\<lambda>j. job_recruiterId j \<noteq> ''r1'') (jobs store3),
             applications :=
               filter (\<lambda>a. app_userId a \<noteq> ''r1''
                        \<and> app_jobId a
                            \<notin> set (map job_id (filter (\<lambda>j. job_recruiterId j = ''r1'') (jobs store3))))
                 (applications store3),
             savedJobs :=
               filter (\<lambda>x. saved_userId x \<noteq> ''r1''
                        \<and> saved_jobId x
                            \<notin> set (map job_id (filter (\<lambda>j. job_recruiterId j = ''r1'') (jobs store3))))
                 (savedJobs store3) \<rparr>
          = store3\<lparr> users := [recruiter2, seeker1, admin1], jobs := [job2], applications := [],
                 savedJobs := [saved1] \<rparr>"
    by (simp add: store3_defs)
  have e2: "store3\<lparr> users := filter (\<lambda>u. user_id u \<noteq> ''u1'') (users store3),
             profiles := filter (\<lambda>p. profile_userId p \<noteq> ''u1'') (profiles store3),
             experiences :=
               filter (\<lambda>e. exp_profileId e
                          \<notin> set (map profile_id (filter (\<lambda>p. profile_userId p = ''u1'') (profiles store3))))
                 (experiences store3),
             educations :=
               filter (\<lambda>e. edu_profileId e
                          \<notin> set (map profile_id (filter (\<lambda>p. profile_userId p = ''u1'') (profiles store3))))
                 (educations store3),
             jobs := filter (\<lambda>j. job_recruiterId j \<noteq> ''u1'') (jobs store3),
             applications :=
               filter (\<lambda>a. app_userId a \<noteq> ''u1''
                        \<and> app_jobId a
                            \<notin> set (map job_id (filter (\<lambda>j. job_recruiterId j = ''u1'') (jobs store3))))
                 (applications store3),
             savedJobs :=
               filter (\<lambda>x. saved_userId x \<noteq> ''u1''
                        \<and> saved_jobId x
                            \<notin> set (map job_id (filter (\<lambda>j. job_recruiterId j = ''u1'') (jobs store3))))
                 (savedJobs store3) \<rparr>
          = store0\<lparr> users := [recruiter1, recruiter2, admin1] \<rparr>"
    by (simp add: store3_defs)
  from C5_deleted_user_leaves_no_rows [of restrict_schema admin_auth "''r1''" store3 store3] a r
  have h: "DELETE_admin_users restrict_schema admin_auth ''r1'' store3
     = (Ok 200 ''User deleted'',
        store3\<lparr> users := [recruiter2, seeker1, admin1], jobs := [job2], applications := [],
                 savedJobs := [saved1] \<rparr>)"
    unfolding e1 by blast
  from C5_deleted_user_leaves_no_rows [of cascade_schema admin_auth "''u1''" store3 store3] a r c
  have k: "DELETE_admin_users cascade_schema admin_auth ''u1'' store3
     = (Ok 200 ''User deleted'', store0\<lparr> users := [recruiter1, recruiter2, admin1] \<rparr>)"
    unfolding e2 by blast
  have n: "\<not> list_ex (\<lambda>p. profile_userId p = ''u1'')
        (profiles (store0\<lparr> users := [recruiter1, recruiter2, admin1] \<rparr>))"
    "\<not> list_ex (\<lambda>x. saved_jobId x = job_id job1)
        (savedJobs (store3\<lparr> users := [recruiter2, seeker1, admin1], jobs := [job2],
           applications := [], savedJobs := [saved1] \<rparr>))"
    by (simp_all add: store3_defs)
  from a r f h k n show ?thesis
    by simp
qed

end
